theory Spec2Isabelle
  imports Main "HOL-Library.Code_Target_Nat"
begin

section \<open>Strings, numbers and the control-number format\<close>

text \<open>
  JavaScript values are modelled as follows. A value that may be \<open>null\<close> or
  \<open>undefined\<close> (a nullable TEXT column, an optional property of a request body) is a
  \<open>string option\<close>, \<open>None\<close> standing for both. A value used as a condition is
  truthy when it is neither \<open>null\<close>/\<open>undefined\<close> nor the empty string.
\<close>

definition truthy :: "string option \<Rightarrow> bool" where
  "truthy v = (case v of None \<Rightarrow> False | Some s \<Rightarrow> s \<noteq> [])"

text \<open>The character class \<open>\d\<close> of a JavaScript regular expression: the ASCII digits.\<close>

definition isDigit :: "char \<Rightarrow> bool" where
  "isDigit c = (48 \<le> (of_char c :: nat) \<and> (of_char c :: nat) \<le> 57)"

definition digitChar :: "nat \<Rightarrow> char" where
  "digitChar d = char_of (48 + d)"

definition digitVal :: "char \<Rightarrow> nat" where
  "digitVal c = of_char c - 48"

subsection \<open>Numbers\<close>

text \<open>
  A JavaScript number is an IEEE 754 double. The numbers of the control-number code are
  sequence numbers: \<open>parseInt\<close> of a run of digits, such a number plus one, the larger
  of two such numbers. They are non-negative integers or \<open>Infinity\<close>, so a number is
  modelled as a \<open>nat\<close> that is a Number value, \<open>2 ^ 1024\<close> (one binary place beyond
  the largest double) standing for \<open>Infinity\<close>.

  \<open>toNumber n\<close> is the Number value for the integer \<open>n\<close>: \<open>n\<close> itself below
  \<open>2 ^ 53 = 9007199254740992\<close>, and otherwise \<open>n\<close> rounded to 53 significant bits,
  to the nearest and in a tie to the even one, or \<open>Infinity\<close> when that is beyond the
  doubles. A \<open>nat\<close> \<open>n\<close> is a Number value when \<open>toNumber n = n\<close>.
\<close>

definition Infinity :: nat where
  "Infinity = 2 ^ 1024"

fun bitLength :: "nat \<Rightarrow> nat" where
  "bitLength n = (if n = 0 then 0 else Suc (bitLength (n div 2)))"

declare bitLength.simps [simp del]

definition toNumber :: "nat \<Rightarrow> nat" where
  "toNumber n =
     (if n < 9007199254740992 then n
      else (let e = bitLength n - 53;
                q = n div 2 ^ e;
                r = n mod 2 ^ e;
                half = 2 ^ (e - 1);
                rounded = (if r < half \<or> (r = half \<and> even q) then q else q + 1) * 2 ^ e
            in if rounded < Infinity then rounded else Infinity))"

text \<open>\<open>a + b\<close> on numbers: the sum, rounded.\<close>

definition js_plus :: "nat \<Rightarrow> nat \<Rightarrow> nat" where
  "js_plus a b = toNumber (a + b)"

text \<open>The decimal digits of an integer, most significant first, and the integer that a
  run of decimal digits denotes.\<close>

fun decimal :: "nat \<Rightarrow> string" where
  "decimal n = (if n < 10 then [digitChar n] else decimal (n div 10) @ [digitChar (n mod 10)])"

declare decimal.simps [simp del]

definition digitsValue :: "string \<Rightarrow> nat" where
  "digitsValue s = foldl (\<lambda>acc c. 10 * acc + digitVal c) 0 s"

text \<open>
  \<open>String(seq)\<close> for a number \<open>v\<close> (\<open>Number::toString\<close>, radix 10) prints the integer
  \<open>s * 10 ^ e\<close> with the fewest digits \<open>s\<close> whose Number value is \<open>v\<close>, the one
  nearest to \<open>v\<close> if there are several (the even \<open>s\<close> in a tie).
  \<open>shortestFrom v e\<close> looks for it among the multiples of \<open>10 ^ e\<close> next to \<open>v\<close>,
  from the given \<open>e\<close> downwards; at \<open>e = 0\<close> it is \<open>v\<close> itself. The integer found
  is printed in full when it is below \<open>10 ^ 21\<close>, and otherwise in exponent notation:
  its first digit, the further digits up to the last non-zero one after a point,
  \<open>e+\<close> and the number of digits that follow the first.
\<close>

fun shortestFrom :: "nat \<Rightarrow> nat \<Rightarrow> nat" where
  "shortestFrom v 0 = v"
| "shortestFrom v (Suc e) =
     (let p = 10 ^ Suc e;
          lo = (v div p) * p;
          hi = lo + p;
          okLo = (toNumber lo = v);
          okHi = (toNumber hi = v)
      in if okLo \<and> okHi
         then (if v - lo < hi - v \<or> (v - lo = hi - v \<and> even (v div p)) then lo else hi)
         else if okLo then lo
         else if okHi then hi
         else shortestFrom v e)"

definition String_num :: "nat \<Rightarrow> string" where
  "String_num v =
     (if v = Infinity then ''Infinity''
      else (let m = shortestFrom v (length (decimal v) - 1)
            in if m < 1000000000000000000000 then decimal m
               else (let ds = decimal m;
                         s = rev (dropWhile (\<lambda>c. c = CHR ''0'') (rev ds))
                     in (if length s = 1 then s else hd s # CHR ''.'' # tl s)
                        @ ''e+'' @ decimal (length ds - 1))))"

text \<open>\<open>s.padStart(n, c)\<close> with a one-character filler.\<close>

definition padStart :: "nat \<Rightarrow> char \<Rightarrow> string \<Rightarrow> string" where
  "padStart n c s = replicate (n - length s) c @ s"

text \<open>\<open>parseInt(s, 10)\<close> on a string of digits (the only strings the code passes to it:
  a group \<open>(\d+)\<close> of a match): the Number value for the integer the digits denote.\<close>

definition parseInt10 :: "string \<Rightarrow> nat" where
  "parseInt10 s = toNumber (digitsValue s)"

subsection \<open>The control-number format\<close>

text \<open>
  \<^verbatim>\<open>
  function formatCtrlNo(prefix, section, dateStr, seq) {
    const date = dateStr.replace(/-/g, '').slice(2);
    const padded = String(seq).padStart(2, '0');
    const suffix = section ? `-${section}` : '-MC';
    return `${prefix}${suffix}-${date}-${padded}`;
  }
  \<close>
\<close>

definition formatCtrlNo :: "string \<Rightarrow> string option \<Rightarrow> string \<Rightarrow> nat \<Rightarrow> string" where
  "formatCtrlNo prefix section dateStr seq =
     (let date = drop 2 (filter (\<lambda>c. c \<noteq> CHR ''-'') dateStr);
          padded = padStart 2 (CHR ''0'') (String_num seq);
          suffix = (if truthy section then ''-'' @ the section else ''-MC'')
      in prefix @ suffix @ ''-'' @ date @ ''-'' @ padded)"

subsection \<open>The three regular expressions of the source\<close>

text \<open>
  All three patterns end in \<open>(\d+)$\<close>, so a match ends at the end of the string and its
  last group is the longest run of digits at the end (the character before the group is
  \<open>-\<close>, not a digit). \<open>trailingDigits\<close> is that run and \<open>beforeTrailingDigits\<close> what
  precedes it.
\<close>

definition trailingDigits :: "string \<Rightarrow> string" where
  "trailingDigits s = rev (takeWhile isDigit (rev s))"

definition beforeTrailingDigits :: "string \<Rightarrow> string" where
  "beforeTrailingDigits s = rev (dropWhile isDigit (rev s))"

text \<open>\<open>s.match(/-(\d+)$/)\<close>: \<open>Some\<close> of group 1, or \<open>None\<close> for \<open>null\<close>.\<close>

definition match_seq :: "string \<Rightarrow> string option" where
  "match_seq s =
     (let ds = trailingDigits s; pre = beforeTrailingDigits s
      in if ds \<noteq> [] \<and> pre \<noteq> [] \<and> last pre = CHR ''-'' then Some ds else None)"

text \<open>\<open>s.match(/-(\d+)-(\d+)$/)\<close>: \<open>Some\<close> of groups 1 and 2. Group 1 is followed by
  \<open>-\<close> and preceded by the pattern's first \<open>-\<close>, so it is the whole run of digits
  before the second \<open>-\<close>.\<close>

definition match_date_seq :: "string \<Rightarrow> (string \<times> string) option" where
  "match_date_seq s =
     (case match_seq s of
        None \<Rightarrow> None
      | Some g2 \<Rightarrow>
          (case match_seq (butlast (beforeTrailingDigits s)) of
             None \<Rightarrow> None
           | Some g1 \<Rightarrow> Some (g1, g2)))"

text \<open>\<open>s.match(/-MC-(\d+)-(\d+)$/)\<close>: as before, and group 1 is preceded by \<open>-MC-\<close>.\<close>

definition match_MC_date_seq :: "string \<Rightarrow> (string \<times> string) option" where
  "match_MC_date_seq s =
     (case match_date_seq s of
        None \<Rightarrow> None
      | Some (g1, g2) \<Rightarrow>
          (let pre = beforeTrailingDigits (butlast (beforeTrailingDigits s))
           in if 4 \<le> length pre \<and> drop (length pre - 4) pre = ''-MC-''
              then Some (g1, g2) else None))"

text \<open>The sequence number the Allocator reads back from a control number
  (\<open>getNextCounter\<close>): \<open>parseInt(match[1], 10)\<close> of \<open>/-(\d+)$/\<close>.\<close>

definition extractSeq :: "string \<Rightarrow> nat option" where
  "extractSeq s = map_option parseInt10 (match_seq s)"

section \<open>The store\<close>

text \<open>
  The model follows the SQLite code paths of \<open>server/lib/db.js\<close>: \<open>isSqlite\<close> is
  \<open>(process.env.DB_MODE || 'sqlite') === 'sqlite'\<close>, true unless the deployment
  overrides it. The two tables the control-number code reads and writes are lists of
  rows in insertion order; \<open>nextRecordId\<close> and \<open>nextCounterId\<close> are the
  AUTOINCREMENT sequences of the \<open>id\<close> columns. A number written to the column
  \<open>currentNumber\<close> is read back as it was written.
\<close>

record counter_row =
  c_id :: nat
  c_scope :: string
  c_section :: "string option"
  currentNumber :: nat
  lastDateUsed :: "string option"

record record_row =
  r_id :: nat
  r_mcCtrlNo :: "string option"
  r_sectionCtrlNo :: "string option"
  r_section :: "string option"
  r_dateReceived :: "string option"
  r_subjectText :: "string option"
  r_subjectFileUrl :: "string option"
  r_fromValue :: "string option"
  r_fromType :: "string option"
  r_targetDate :: "string option"
  r_targetDateMode :: "string option"
  r_receivedBy :: "string option"
  r_actionTaken :: "string option"
  r_remarks :: "string option"
  r_concernedUnits :: "string option"
  r_dateSent :: "string option"
  r_createdBy :: "string option"
  r_updatedBy :: "string option"
  r_createdAt :: "string option"
  r_updatedAt :: "string option"

record db =
  records :: "record_row list"
  counters :: "counter_row list"
  nextRecordId :: nat
  nextCounterId :: nat

definition initial_db :: db where
  "initial_db = \<lparr>records = [], counters = [], nextRecordId = 1, nextCounterId = 1\<rparr>"

text \<open>SQL comparisons against a bound parameter: \<open>col IS ?\<close> also matches NULL with
  NULL; \<open>col = ?\<close> is never true when either side is NULL.\<close>

definition sql_is :: "string option \<Rightarrow> string option \<Rightarrow> bool" where
  "sql_is col param = (col = param)"

definition sql_eq :: "string option \<Rightarrow> string option \<Rightarrow> bool" where
  "sql_eq col param = (case param of None \<Rightarrow> False | Some p \<Rightarrow> col = Some p)"

text \<open>\<open>a || b\<close> and \<open>a ?? b\<close> on nullable strings.\<close>

definition js_or :: "string option \<Rightarrow> string option \<Rightarrow> string option" where
  "js_or a b = (if truthy a then a else b)"

definition nullish :: "string option \<Rightarrow> string option \<Rightarrow> string option" where
  "nullish a b = (case a of None \<Rightarrow> b | Some v \<Rightarrow> Some v)"

text \<open>\<open>SELECT * FROM counters WHERE scope = ? AND section IS ?\<close> through \<open>getSqlite\<close>:
  the first matching row, or \<open>undefined\<close>.\<close>

definition findCounter :: "db \<Rightarrow> string \<Rightarrow> string option \<Rightarrow> counter_row option" where
  "findCounter st scope section =
     find (\<lambda>c. c_scope c = scope \<and> sql_is (c_section c) section) (counters st)"

text \<open>\<open>SELECT ... FROM records WHERE section = ? AND dateReceived = ?\<close>.\<close>

definition selectRecords :: "db \<Rightarrow> string option \<Rightarrow> string option \<Rightarrow> record_row list" where
  "selectRecords st section dateReceived =
     filter (\<lambda>r. sql_eq (r_section r) section \<and> sql_eq (r_dateReceived r) dateReceived)
       (records st)"

text \<open>\<open>UPDATE counters SET ... WHERE id = ?\<close>.\<close>

definition updateCounterById :: "nat \<Rightarrow> (counter_row \<Rightarrow> counter_row) \<Rightarrow> db \<Rightarrow> db" where
  "updateCounterById cid f st =
     st\<lparr>counters := map (\<lambda>c. if c_id c = cid then f c else c) (counters st)\<rparr>"

text \<open>\<open>INSERT INTO counters (scope, section, currentNumber, lastDateUsed) VALUES (?, ?, 1, ?)\<close>.\<close>

definition insertCounter :: "string \<Rightarrow> string option \<Rightarrow> nat \<Rightarrow> string option \<Rightarrow> db \<Rightarrow> db" where
  "insertCounter scope section n lastUsed st =
     st\<lparr>counters := counters st @
            [\<lparr>c_id = nextCounterId st, c_scope = scope, c_section = section,
              currentNumber = n, lastDateUsed = lastUsed\<rparr>],
        nextCounterId := nextCounterId st + 1\<rparr>"

section \<open>Allocator\<close>

text \<open>
  \<^verbatim>\<open>
  function peekNextCounter(existing, dateReceived) {
    if (!existing) return 1;
    const lastUsed = isSqlite ? existing.lastDateUsed : existing.lastdateused;
    const current = isSqlite ? existing.currentNumber : existing.currentnumber;
    const dateChanged = dateReceived && lastUsed !== dateReceived;
    const base = dateChanged ? 0 : (current || 0);
    return base + 1;
  }
  \<close>
\<close>

definition peekNextCounter :: "counter_row option \<Rightarrow> string option \<Rightarrow> nat" where
  "peekNextCounter existing dateReceived =
     (case existing of
        None \<Rightarrow> 1
      | Some e \<Rightarrow>
          (let lastUsed = lastDateUsed e;
               current = currentNumber e;
               dateChanged = (truthy dateReceived \<and> lastUsed \<noteq> dateReceived);
               base = (if dateChanged then 0 else current)
           in js_plus base 1))"

text \<open>\<open>getNextCounterPreview\<close> reads the counter row and writes nothing; the store is
  returned as it was, so that preview and commit have one type.\<close>

definition getNextCounterPreview :: "db \<Rightarrow> string \<Rightarrow> string option \<Rightarrow> string option \<Rightarrow> nat \<times> db" where
  "getNextCounterPreview st scope section dateReceived =
     (let existing = findCounter st scope section
      in (peekNextCounter existing dateReceived, st))"

text \<open>The loop of \<open>getNextCounter\<close> that finds the highest sequence number in the
  rows selected for \<open>(section, dateReceived)\<close>:
  \<^verbatim>\<open>
  let highestActual = 0;
  records.forEach(record => {
    const ctrlNo = scope === 'MC' ? record.mcCtrlNo : record.sectionCtrlNo;
    if (ctrlNo) {
      const match = ctrlNo.match(/-(\d+)$/);
      if (match) {
        const seq = parseInt(match[1], 10);
        if (seq > highestActual) highestActual = seq;
      }
    }
  });
  \<close>
\<close>

definition highestActual_step :: "string \<Rightarrow> nat \<Rightarrow> record_row \<Rightarrow> nat" where
  "highestActual_step scope highestActual record =
     (let ctrlNo = (if scope = ''MC'' then r_mcCtrlNo record else r_sectionCtrlNo record)
      in if truthy ctrlNo then
           (case match_seq (the ctrlNo) of
              None \<Rightarrow> highestActual
            | Some g1 \<Rightarrow>
                (let seq = parseInt10 g1
                 in if seq > highestActual then seq else highestActual))
         else highestActual)"

definition highestActual :: "string \<Rightarrow> record_row list \<Rightarrow> nat" where
  "highestActual scope rows = foldl (highestActual_step scope) 0 rows"

text \<open>
  \<open>getNextCounter({ scope, section, dateReceived })\<close>, SQLite path. The result is the
  returned sequence number and the store after the call. \<open>currentNumber\<close> is a number
  in every row (the column defaults to 0 and every write binds a number), so
  \<open>existing.currentNumber || 0\<close> is \<open>existing.currentNumber\<close>.
  \<^verbatim>\<open>
  const existing = await getSqlite('SELECT * FROM counters WHERE scope = ? AND section IS ?;', [scope, section]);
  const dateChanged = dateReceived && existing && existing.lastDateUsed !== dateReceived;
  if (existing && !dateChanged && section && dateReceived) {
    const records = await allSqlite(
      'SELECT mcCtrlNo, sectionCtrlNo FROM records WHERE section = ? AND dateReceived = ?;',
      [section, dateReceived]);
    let highestActual = 0;
    records.forEach(...);
    if (existing.currentNumber > highestActual) {
      await runSqlite('UPDATE counters SET currentNumber = ? WHERE id = ?;', [highestActual, existing.id]);
      return highestActual + 1;
    }
  }
  if (!existing) {
    await runSqlite('INSERT INTO counters (scope, section, currentNumber, lastDateUsed) VALUES (?, ?, 1, ?);',
      [scope, section, dateReceived || null]);
    return 1;
  }
  const baseNumber = dateChanged ? 0 : existing.currentNumber || 0;
  const next = baseNumber + 1;
  await runSqlite('UPDATE counters SET currentNumber = ?, lastDateUsed = ? WHERE id = ?;',
    [next, dateReceived || existing.lastDateUsed, existing.id]);
  return next;
  \<close>
\<close>

definition getNextCounter :: "db \<Rightarrow> string \<Rightarrow> string option \<Rightarrow> string option \<Rightarrow> nat \<times> db" where
  "getNextCounter st scope section dateReceived =
     (let existing = findCounter st scope section;
          dateChanged = (truthy dateReceived \<and> existing \<noteq> None \<and>
                         lastDateUsed (the existing) \<noteq> dateReceived);
          highest = highestActual scope (selectRecords st section dateReceived)
      in if existing \<noteq> None \<and> \<not> dateChanged \<and> truthy section \<and> truthy dateReceived \<and>
            currentNumber (the existing) > highest
         then (js_plus highest 1,
               updateCounterById (c_id (the existing)) (\<lambda>c. c\<lparr>currentNumber := highest\<rparr>) st)
         else if existing = None
         then (1, insertCounter scope section 1 (js_or dateReceived None) st)
         else (let baseNumber = (if dateChanged then 0 else currentNumber (the existing));
                   next = js_plus baseNumber 1
               in (next,
                   updateCounterById (c_id (the existing))
                     (\<lambda>c. c\<lparr>currentNumber := next,
                            lastDateUsed := js_or dateReceived (lastDateUsed (the existing))\<rparr>)
                     st)))"

text \<open>
  \<^verbatim>\<open>
  async function getNextControlNumbers(section, dateReceived, preview = false) {
    const getCounter = preview ? db.getNextCounterPreview : db.getNextCounter;
    const mcSeq = await getCounter({ scope: 'MC', section: null, dateReceived });
    const sectionSeq = await getCounter({ scope: 'SECTION', section, dateReceived });
    const mcCtrlNo = formatCtrlNo('RFU4A', null, dateReceived, mcSeq);
    const sectionCtrlNo = formatCtrlNo('RFU4A', section, dateReceived, sectionSeq);
    return { mcCtrlNo, sectionCtrlNo };
  }
  \<close>
  Its callers reject a missing section or date first, so both are strings here.
\<close>

definition getNextControlNumbers :: "db \<Rightarrow> string \<Rightarrow> string \<Rightarrow> bool \<Rightarrow> (string \<times> string) \<times> db" where
  "getNextControlNumbers st section dateReceived preview =
     (let getCounter = (if preview then getNextCounterPreview else getNextCounter);
          (mcSeq, st1) = getCounter st ''MC'' None (Some dateReceived);
          (sectionSeq, st2) = getCounter st1 ''SECTION'' (Some section) (Some dateReceived);
          mcCtrlNo = formatCtrlNo ''RFU4A'' None dateReceived mcSeq;
          sectionCtrlNo = formatCtrlNo ''RFU4A'' (Some section) dateReceived sectionSeq
      in ((mcCtrlNo, sectionCtrlNo), st2))"

section \<open>Record store\<close>

text \<open>
  A request body after \<open>sanitizeInput\<close>, as far as the record operations read it.
  \<open>None\<close> is a property that is absent (or \<open>null\<close>); the three \<open>remarks...\<close> flags
  are read only for their truthiness.
\<close>

record payload =
  p_mcCtrlNo :: "string option"
  p_sectionCtrlNo :: "string option"
  p_section :: "string option"
  p_dateReceived :: "string option"
  p_subjectText :: "string option"
  p_subjectFileUrl :: "string option"
  p_fromValue :: "string option"
  p_fromType :: "string option"
  p_targetDate :: "string option"
  p_targetDateMode :: "string option"
  p_receivedBy :: "string option"
  p_actionTaken :: "string option"
  p_remarks :: "string option"
  p_concernedUnits :: "string option"
  p_dateSent :: "string option"
  p_createdBy :: "string option"
  p_updatedBy :: "string option"
  p_username :: "string option"
  p_remarksEmail :: bool
  p_remarksViber :: bool
  p_remarksHardCopy :: bool

text \<open>\<open>xs.join(sep)\<close>.\<close>

fun join :: "string \<Rightarrow> string list \<Rightarrow> string" where
  "join sep [] = []"
| "join sep [x] = x"
| "join sep (x # y # ys) = x @ sep @ join sep (y # ys)"

text \<open>
  \<^verbatim>\<open>
  function normalizeRemarks(payload) {
    const selected = [];
    if (payload.remarksEmail) selected.push('email');
    if (payload.remarksViber) selected.push('viber');
    if (payload.remarksHardCopy) selected.push('hardcopy');
    if (selected.length === 0) return '';
    return `sent through ${selected.join('/ ')}`;
  }
  \<close>
\<close>

definition normalizeRemarks :: "payload \<Rightarrow> string" where
  "normalizeRemarks payload =
     (let selected = (if p_remarksEmail payload then [''email''] else []) @
                     (if p_remarksViber payload then [''viber''] else []) @
                     (if p_remarksHardCopy payload then [''hardcopy''] else [])
      in if length selected = 0 then [] else ''sent through '' @ join ''/ '' selected)"

text \<open>\<open>createRecord(payload)\<close>; \<open>now\<close> is \<open>new Date().toISOString()\<close>. The result is
  \<open>{ id: result.lastID, ...record }\<close> and the store with the row inserted.\<close>

definition createRecord :: "db \<Rightarrow> string \<Rightarrow> payload \<Rightarrow> record_row \<times> db" where
  "createRecord st now payload =
     (let record = \<lparr>
            r_id = nextRecordId st,
            r_mcCtrlNo = p_mcCtrlNo payload,
            r_sectionCtrlNo = p_sectionCtrlNo payload,
            r_section = p_section payload,
            r_dateReceived = p_dateReceived payload,
            r_subjectText = p_subjectText payload,
            r_subjectFileUrl = js_or (p_subjectFileUrl payload) None,
            r_fromValue = p_fromValue payload,
            r_fromType = p_fromType payload,
            r_targetDate = p_targetDate payload,
            r_targetDateMode = p_targetDateMode payload,
            r_receivedBy = p_receivedBy payload,
            r_actionTaken = p_actionTaken payload,
            r_remarks = p_remarks payload,
            r_concernedUnits = p_concernedUnits payload,
            r_dateSent = p_dateSent payload,
            r_createdBy = js_or (p_createdBy payload) (p_username payload),
            r_updatedBy = js_or (p_updatedBy payload) (p_username payload),
            r_createdAt = Some now,
            r_updatedAt = Some now\<rparr>
      in (record, st\<lparr>records := records st @ [record], nextRecordId := nextRecordId st + 1\<rparr>))"

text \<open>\<open>getRecord(id)\<close>: \<open>SELECT * FROM records WHERE id = ?\<close>, first row or \<open>undefined\<close>.\<close>

definition getRecord :: "db \<Rightarrow> nat \<Rightarrow> record_row option" where
  "getRecord st rid = find (\<lambda>r. r_id r = rid) (records st)"

text \<open>
  \<open>updateRecord(id, payload)\<close>: \<open>null\<close> when there is no such record; otherwise every
  column is set to \<open>payload.x ?? current.x\<close> (\<open>updatedBy\<close> to
  \<open>payload.updatedBy || payload.username || current.updatedBy\<close>, \<open>updatedAt\<close> to
  \<open>now\<close>) in the rows with that id, and the record is read back.
\<close>

definition updateRecord :: "db \<Rightarrow> string \<Rightarrow> nat \<Rightarrow> payload \<Rightarrow> record_row option \<times> db" where
  "updateRecord st now rid payload =
     (case getRecord st rid of
        None \<Rightarrow> (None, st)
      | Some current \<Rightarrow>
          (let fields = (\<lambda>row. row\<lparr>
                 r_mcCtrlNo := nullish (p_mcCtrlNo payload) (r_mcCtrlNo current),
                 r_sectionCtrlNo := nullish (p_sectionCtrlNo payload) (r_sectionCtrlNo current),
                 r_section := nullish (p_section payload) (r_section current),
                 r_dateReceived := nullish (p_dateReceived payload) (r_dateReceived current),
                 r_subjectText := nullish (p_subjectText payload) (r_subjectText current),
                 r_subjectFileUrl := nullish (p_subjectFileUrl payload) (r_subjectFileUrl current),
                 r_fromValue := nullish (p_fromValue payload) (r_fromValue current),
                 r_fromType := nullish (p_fromType payload) (r_fromType current),
                 r_targetDate := nullish (p_targetDate payload) (r_targetDate current),
                 r_targetDateMode := nullish (p_targetDateMode payload) (r_targetDateMode current),
                 r_receivedBy := nullish (p_receivedBy payload) (r_receivedBy current),
                 r_actionTaken := nullish (p_actionTaken payload) (r_actionTaken current),
                 r_remarks := nullish (p_remarks payload) (r_remarks current),
                 r_concernedUnits := nullish (p_concernedUnits payload) (r_concernedUnits current),
                 r_dateSent := nullish (p_dateSent payload) (r_dateSent current),
                 r_updatedBy := js_or (js_or (p_updatedBy payload) (p_username payload))
                                  (r_updatedBy current),
                 r_updatedAt := Some now\<rparr>);
               st1 = st\<lparr>records := map (\<lambda>row. if r_id row = rid then fields row else row)
                                       (records st)\<rparr>
           in (getRecord st1 rid, st1)))"

text \<open>\<open>deleteRecord(id)\<close>: \<open>DELETE FROM records WHERE id = ?\<close>.\<close>

definition deleteRecord :: "db \<Rightarrow> nat \<Rightarrow> db" where
  "deleteRecord st rid = st\<lparr>records := filter (\<lambda>r. r_id r \<noteq> rid) (records st)\<rparr>"

text \<open>
  The statements of \<open>POST /records\<close> that follow its guards (role, required section and
  date, date format):
  \<^verbatim>\<open>
  const { mcCtrlNo, sectionCtrlNo } =
    await getNextControlNumbers(payload.section, payload.dateReceived, false);
  const remarksText = normalizeRemarks(payload);
  const record = await db.createRecord({ ...payload, mcCtrlNo, sectionCtrlNo, remarks: remarksText });
  \<close>
\<close>

definition postRecords :: "db \<Rightarrow> string \<Rightarrow> payload \<Rightarrow> record_row \<times> db" where
  "postRecords st now payload =
     (let ((mcCtrlNo, sectionCtrlNo), st1) =
            getNextControlNumbers st (the (p_section payload)) (the (p_dateReceived payload)) False;
          remarksText = normalizeRemarks payload
      in createRecord st1 now
           (payload\<lparr>p_mcCtrlNo := Some mcCtrlNo, p_sectionCtrlNo := Some sectionCtrlNo,
                    p_remarks := Some remarksText\<rparr>))"

section \<open>Counter Resetter\<close>

record reset_result =
  rr_highestMC :: nat
  rr_highestSection :: nat

text \<open>
  The loop of \<open>resetCountersForSection\<close>:
  \<^verbatim>\<open>
  records.forEach(record => {
    if (mcCtrlNo) {
      const match = mcCtrlNo.match(/-MC-(\d+)-(\d+)$/);
      if (match) {
        const seq = parseInt(match[2], 10);
        if (seq > highestMC) highestMC = seq;
      }
    }
    if (sectionCtrlNo) {
      const match = sectionCtrlNo.match(/-(\d+)-(\d+)$/);
      if (match) {
        const seq = parseInt(match[2], 10);
        if (seq > highestSection) highestSection = seq;
      }
    }
  });
  \<close>
\<close>

definition reset_step :: "nat \<times> nat \<Rightarrow> record_row \<Rightarrow> nat \<times> nat" where
  "reset_step acc record =
     (let mcCtrlNo = r_mcCtrlNo record;
          sectionCtrlNo = r_sectionCtrlNo record;
          hMC = (if truthy mcCtrlNo then
                   (case match_MC_date_seq (the mcCtrlNo) of
                      None \<Rightarrow> fst acc
                    | Some m \<Rightarrow>
                        (let seq = parseInt10 (snd m) in if seq > fst acc then seq else fst acc))
                 else fst acc);
          hSection = (if truthy sectionCtrlNo then
                        (case match_date_seq (the sectionCtrlNo) of
                           None \<Rightarrow> snd acc
                         | Some m \<Rightarrow>
                             (let seq = parseInt10 (snd m) in if seq > snd acc then seq else snd acc))
                      else snd acc)
      in (hMC, hSection))"

text \<open>The SELECT (\<open>ORDER BY id DESC\<close>) and the loop: the two maxima.\<close>

definition reset_scan :: "db \<Rightarrow> string option \<Rightarrow> string option \<Rightarrow> nat \<times> nat" where
  "reset_scan st section dateReceived =
     foldl reset_step (0, 0) (rev (sort_key r_id (selectRecords st section dateReceived)))"

text \<open>\<open>UPDATE counters SET currentNumber = ? WHERE scope = ? AND section IS ?\<close> with
  \<open>[highestMC, 'MC', null]\<close>.\<close>

definition reset_updateMC :: "nat \<Rightarrow> db \<Rightarrow> db" where
  "reset_updateMC n st =
     st\<lparr>counters := map (\<lambda>c. if c_scope c = ''MC'' \<and> sql_is (c_section c) None
                               then c\<lparr>currentNumber := n\<rparr> else c) (counters st)\<rparr>"

text \<open>\<open>UPDATE counters SET currentNumber = ? WHERE scope = ? AND section = ?\<close> with
  \<open>[highestSection, 'SECTION', section]\<close>.\<close>

definition reset_updateSection :: "nat \<Rightarrow> string option \<Rightarrow> db \<Rightarrow> db" where
  "reset_updateSection n section st =
     st\<lparr>counters := map (\<lambda>c. if c_scope c = ''SECTION'' \<and> sql_eq (c_section c) section
                               then c\<lparr>currentNumber := n\<rparr> else c) (counters st)\<rparr>"

definition resetCountersForSection :: "db \<Rightarrow> string option \<Rightarrow> string option \<Rightarrow> reset_result \<times> db" where
  "resetCountersForSection st section dateReceived =
     (let h = reset_scan st section dateReceived;
          st1 = reset_updateMC (fst h) st;
          st2 = reset_updateSection (snd h) section st1
      in (\<lparr>rr_highestMC = fst h, rr_highestSection = snd h\<rparr>, st2))"

section \<open>Validator\<close>

text \<open>An entry of \<open>duplicates\<close> is \<open>{ type, controlNumber, recordId }\<close> and an entry of
  \<open>issues\<close> is \<open>{ type, message }\<close>.\<close>

record duplicate =
  d_type :: string
  d_controlNumber :: string
  d_recordId :: nat

record issue =
  i_type :: string
  i_message :: string

record validation_result =
  v_duplicates :: "duplicate list"
  v_issues :: "issue list"
  v_hasProblems :: bool

text \<open>A JavaScript \<open>Set\<close> of strings keeps its members in insertion order; \<open>add\<close> of a
  member changes nothing.\<close>

definition set_add :: "string \<Rightarrow> string list \<Rightarrow> string list" where
  "set_add x xs = (if List.member xs x then xs else xs @ [x])"

text \<open>
  The first loop of \<open>validateControlNumbers\<close>; the accumulator is
  \<open>(mcNumbers, sectionNumbers, duplicates)\<close>.
  \<^verbatim>\<open>
  records.forEach(record => {
    if (mcCtrlNo) {
      if (mcNumbers.has(mcCtrlNo)) {
        duplicates.push({ type: 'MC', controlNumber: mcCtrlNo, recordId: record.id });
      }
      mcNumbers.add(mcCtrlNo);
    }
    if (sectionCtrlNo) {
      if (sectionNumbers.has(sectionCtrlNo)) {
        duplicates.push({ type: 'SECTION', controlNumber: sectionCtrlNo, recordId: record.id });
      }
      sectionNumbers.add(sectionCtrlNo);
    }
  });
  \<close>
\<close>

definition validate_step ::
  "string list \<times> string list \<times> duplicate list \<Rightarrow> record_row \<Rightarrow>
   string list \<times> string list \<times> duplicate list" where
  "validate_step acc record =
     (let mcNumbers = fst acc;
          sectionNumbers = fst (snd acc);
          duplicates = snd (snd acc);
          mcCtrlNo = r_mcCtrlNo record;
          sectionCtrlNo = r_sectionCtrlNo record;
          duplicates1 =
            (if truthy mcCtrlNo \<and> List.member mcNumbers (the mcCtrlNo)
             then duplicates @ [\<lparr>d_type = ''MC'', d_controlNumber = the mcCtrlNo,
                                 d_recordId = r_id record\<rparr>]
             else duplicates);
          mcNumbers1 = (if truthy mcCtrlNo then set_add (the mcCtrlNo) mcNumbers else mcNumbers);
          duplicates2 =
            (if truthy sectionCtrlNo \<and> List.member sectionNumbers (the sectionCtrlNo)
             then duplicates1 @ [\<lparr>d_type = ''SECTION'', d_controlNumber = the sectionCtrlNo,
                                  d_recordId = r_id record\<rparr>]
             else duplicates1);
          sectionNumbers1 =
            (if truthy sectionCtrlNo then set_add (the sectionCtrlNo) sectionNumbers
             else sectionNumbers)
      in (mcNumbers1, sectionNumbers1, duplicates2))"

text \<open>
  \<^verbatim>\<open>
  const extractSequence = (controlNumber, pattern) => {
    const match = controlNumber.match(pattern);
    return match ? parseInt(match[2], 10) : null;
  };
  \<close>
  A pattern is given by its matcher (\<open>match_MC_date_seq\<close> or \<open>match_date_seq\<close>).
\<close>

definition extractSequence :: "string \<Rightarrow> (string \<Rightarrow> (string \<times> string) option) \<Rightarrow> nat option" where
  "extractSequence controlNumber pattern =
     (case pattern controlNumber of None \<Rightarrow> None | Some m \<Rightarrow> Some (parseInt10 (snd m)))"

text \<open>\<open>Array.from(numbers).map(cn => extractSequence(cn, pattern)).filter(n => n !== null)
  .sort((a, b) => a - b)\<close>.\<close>

definition sequencesOf :: "(string \<Rightarrow> (string \<times> string) option) \<Rightarrow> string list \<Rightarrow> nat list" where
  "sequencesOf pattern numbers =
     sort (map the (filter (\<lambda>n. n \<noteq> None) (map (\<lambda>cn. extractSequence cn pattern) numbers)))"

text \<open>
  The gap loops, for a sorted array \<open>seqs\<close> and the scope's \<open>type\<close>:
  \<^verbatim>\<open>
  for (let i = 0; i < seqs.length - 1; i++) {
    if (seqs[i + 1] - seqs[i] > 1) {
      for (let missing = seqs[i] + 1; missing < seqs[i + 1]; missing++) {
        issues.push({ type, message: `Missing control number sequence: ${missing}` });
      }
    }
  }
  \<close>
\<close>

fun findGaps :: "string \<Rightarrow> nat list \<Rightarrow> issue list" where
  "findGaps ty (a # b # rest) =
     (if int b - int a > 1
      then map (\<lambda>missing. \<lparr>i_type = ty,
                            i_message = ''Missing control number sequence: '' @ String_num missing\<rparr>)
             [a + 1 ..< b]
      else []) @ findGaps ty (b # rest)"
| "findGaps ty [a] = []"
| "findGaps ty [] = []"

definition validateControlNumbers :: "db \<Rightarrow> string option \<Rightarrow> string option \<Rightarrow> validation_result" where
  "validateControlNumbers st section dateReceived =
     (let rows = sort_key r_id (selectRecords st section dateReceived);
          acc = foldl validate_step ([], [], []) rows;
          mcNumbers = fst acc;
          sectionNumbers = fst (snd acc);
          duplicates = snd (snd acc);
          mcSequences = sequencesOf match_MC_date_seq mcNumbers;
          sectionSequences = sequencesOf match_date_seq sectionNumbers;
          issues = findGaps ''MC'' mcSequences @ findGaps ''SECTION'' sectionSequences
      in \<lparr>v_duplicates = duplicates, v_issues = issues,
          v_hasProblems = (length duplicates > 0 \<or> length issues > 0)\<rparr>)"

section \<open>Deleting a record\<close>

text \<open>
  A storage call may reject (\<open>runSqlite\<close>, \<open>allSqlite\<close> and \<open>getSqlite\<close> reject their
  promise on an SQLite error). For the \<open>DELETE /records/:id\<close> handler the outcome of
  each storage call of one request is a parameter: \<open>faults\<close> says which calls reject.
  A statement that rejects leaves the store as it was before that statement.
\<close>

datatype storage_error = StorageError

datatype reset_fault =
  ResetNoFault | ResetSelectFails | ResetUpdateMCFails | ResetUpdateSectionFails

record faults =
  f_getRecord :: bool
  f_deleteRecord :: bool
  f_reset :: reset_fault
  f_validate :: bool

definition resetCountersForSection_faulty ::
  "reset_fault \<Rightarrow> db \<Rightarrow> string option \<Rightarrow> string option \<Rightarrow> (storage_error + reset_result) \<times> db" where
  "resetCountersForSection_faulty fault st section dateReceived =
     (case fault of
        ResetNoFault \<Rightarrow>
          (Inr (fst (resetCountersForSection st section dateReceived)),
           snd (resetCountersForSection st section dateReceived))
      | ResetSelectFails \<Rightarrow> (Inl StorageError, st)
      | ResetUpdateMCFails \<Rightarrow> (Inl StorageError, st)
      | ResetUpdateSectionFails \<Rightarrow>
          (Inl StorageError, reset_updateMC (fst (reset_scan st section dateReceived)) st))"

definition validateControlNumbers_faulty ::
  "bool \<Rightarrow> db \<Rightarrow> string option \<Rightarrow> string option \<Rightarrow> storage_error + validation_result" where
  "validateControlNumbers_faulty fault st section dateReceived =
     (if fault then Inl StorageError else Inr (validateControlNumbers st section dateReceived))"

text \<open>\<open>req.user\<close>, as \<open>authMiddleware\<close> leaves it.\<close>

record user =
  u_role :: string
  u_section :: "string option"

text \<open>
  A response is \<open>res.status(code).json({ error })\<close>, or \<open>res.json(body)\<close> with the body
  of a deletion (an absent property is \<open>None\<close>), or none at all when the handler's
  promise rejects and \<open>asyncHandler\<close> passes the error on.
\<close>

record delete_body =
  b_ok :: bool
  b_countersReset :: "reset_result option"
  b_validation :: "validation_result option"
  b_warning :: "string option"

datatype response = ErrorStatus nat string | Json delete_body | Rejected storage_error

text \<open>
  \<^verbatim>\<open>
  app.delete('/records/:id', authMiddleware, asyncHandler(async (req, res) => {
    const record = await db.getRecord(req.params.id);
    if (!record) return res.status(404).json({ error: 'Not found' });
    if (req.user.role === 'SECTION' && record.section !== req.user.section) {
      return res.status(403).json({ error: 'Forbidden' });
    }
    const { section, dateReceived } = record;
    await db.deleteRecord(req.params.id);
    try {
      const resetResult = await db.resetCountersForSection(section, dateReceived);
      const validation = await db.validateControlNumbers(section, dateReceived);
      return res.json({
        ok: true,
        countersReset: resetResult,
        validation: validation.hasProblems ? validation : undefined
      });
    } catch (resetError) {
      return res.json({ ok: true, warning: 'Record deleted but counter reset failed' });
    }
  }));
  \<close>
\<close>

definition deleteRecordHandler :: "faults \<Rightarrow> user \<Rightarrow> nat \<Rightarrow> db \<Rightarrow> response \<times> db" where
  "deleteRecordHandler f usr rid st =
     (if f_getRecord f then (Rejected StorageError, st)
      else case getRecord st rid of
        None \<Rightarrow> (ErrorStatus 404 ''Not found'', st)
      | Some record \<Rightarrow>
          if u_role usr = ''SECTION'' \<and> r_section record \<noteq> u_section usr
          then (ErrorStatus 403 ''Forbidden'', st)
          else if f_deleteRecord f then (Rejected StorageError, st)
          else
            (let section = r_section record;
                 dateReceived = r_dateReceived record;
                 st1 = deleteRecord st rid;
                 caught = \<lparr>b_ok = True, b_countersReset = None, b_validation = None,
                           b_warning = Some ''Record deleted but counter reset failed''\<rparr>
             in case resetCountersForSection_faulty (f_reset f) st1 section dateReceived of
                  (Inl resetError, st2) \<Rightarrow> (Json caught, st2)
                | (Inr resetResult, st2) \<Rightarrow>
                    (case validateControlNumbers_faulty (f_validate f) st2 section dateReceived of
                       Inl resetError \<Rightarrow> (Json caught, st2)
                     | Inr validation \<Rightarrow>
                         (Json \<lparr>b_ok = True, b_countersReset = Some resetResult,
                                 b_validation = (if v_hasProblems validation
                                                 then Some validation else None),
                                 b_warning = None\<rparr>, st2))))"

section \<open>Updating a record\<close>

text \<open>\<open>/^\d{4}-\d{2}-\d{2}$/.test(s)\<close>.\<close>

definition isDatePattern :: "string \<Rightarrow> bool" where
  "isDatePattern s =
     (length s = 10
      \<and> list_all isDigit (take 4 s) \<and> s ! 4 = CHR ''-''
      \<and> list_all isDigit (take 2 (drop 5 s)) \<and> s ! 7 = CHR ''-''
      \<and> list_all isDigit (drop 8 s))"

text \<open>
  \<open>new Date(s)\<close> for a string of that pattern is the UTC midnight of the day, or an
  invalid date when the month is not 1 to 12 or the day not 1 to 31 (a day beyond the
  end of its month counts on into the next month). Two dates are compared by their
  time values, so by their day numbers, here counted from the first day of the year 0;
  a comparison with an invalid date is false.
\<close>

definition isLeapYear :: "nat \<Rightarrow> bool" where
  "isLeapYear y = ((y mod 4 = 0 \<and> y mod 100 \<noteq> 0) \<or> y mod 400 = 0)"

definition daysBeforeYear :: "nat \<Rightarrow> nat" where
  "daysBeforeYear y = 365 * y + (y + 3) div 4 - (y + 99) div 100 + (y + 399) div 400"

definition daysBeforeMonth :: "nat \<Rightarrow> nat \<Rightarrow> nat" where
  "daysBeforeMonth y m =
     [0, 31, 59, 90, 120, 151, 181, 212, 243, 273, 304, 334] ! (m - 1)
     + (if 2 < m \<and> isLeapYear y then 1 else 0)"

definition dateValue :: "string \<Rightarrow> nat option" where
  "dateValue s =
     (let y = digitsValue (take 4 s);
          m = digitsValue (take 2 (drop 5 s));
          d = digitsValue (drop 8 s)
      in if 1 \<le> m \<and> m \<le> 12 \<and> 1 \<le> d \<and> d \<le> 31
         then Some (daysBeforeYear y + daysBeforeMonth y m + d - 1)
         else None)"

definition date_less :: "string \<Rightarrow> string \<Rightarrow> bool" where
  "date_less a b =
     (case dateValue a of
        None \<Rightarrow> False
      | Some x \<Rightarrow> (case dateValue b of None \<Rightarrow> False | Some y \<Rightarrow> x < y))"

text \<open>
  \<^verbatim>\<open>
  function validateDates(payload) {
    const errors = [];
    const { dateReceived, targetDate, dateSent } = payload;
    if (dateReceived && !/^\d{4}-\d{2}-\d{2}$/.test(dateReceived)) {
      errors.push('Date received must be in YYYY-MM-DD format');
    }
    if (targetDate && !/^\d{4}-\d{2}-\d{2}$/.test(targetDate) && targetDate !== '') {
      const datePattern = /^\d{4}-\d{2}-\d{2}$/;
      if (!datePattern.test(targetDate)) {
        errors.push('Target date must be in YYYY-MM-DD format or a text description');
      }
    }
    if (dateSent && !/^\d{4}-\d{2}-\d{2}$/.test(dateSent) && dateSent !== '') {
      errors.push('Date sent must be in YYYY-MM-DD format');
    }
    if (dateReceived && targetDate && /^\d{4}-\d{2}-\d{2}$/.test(dateReceived)
        && /^\d{4}-\d{2}-\d{2}$/.test(targetDate)) {
      const received = new Date(dateReceived);
      const target = new Date(targetDate);
      if (target < received) {
        errors.push('Target date cannot be earlier than date received');
      }
    }
    if (dateReceived && dateSent && /^\d{4}-\d{2}-\d{2}$/.test(dateReceived)
        && /^\d{4}-\d{2}-\d{2}$/.test(dateSent)) {
      const received = new Date(dateReceived);
      const sent = new Date(dateSent);
      if (sent < received) {
        errors.push('Date sent cannot be earlier than date received');
      }
    }
    return errors;
  }
  \<close>
\<close>

definition validateDates :: "payload \<Rightarrow> string list" where
  "validateDates payload =
     (let dateReceived = p_dateReceived payload;
          targetDate = p_targetDate payload;
          dateSent = p_dateSent payload
      in (if truthy dateReceived \<and> \<not> isDatePattern (the dateReceived)
          then [''Date received must be in YYYY-MM-DD format''] else [])
       @ (if truthy targetDate \<and> \<not> isDatePattern (the targetDate)
          then [''Target date must be in YYYY-MM-DD format or a text description''] else [])
       @ (if truthy dateSent \<and> \<not> isDatePattern (the dateSent)
          then [''Date sent must be in YYYY-MM-DD format''] else [])
       @ (if truthy dateReceived \<and> truthy targetDate
             \<and> isDatePattern (the dateReceived) \<and> isDatePattern (the targetDate)
             \<and> date_less (the targetDate) (the dateReceived)
          then [''Target date cannot be earlier than date received''] else [])
       @ (if truthy dateReceived \<and> truthy dateSent
             \<and> isDatePattern (the dateReceived) \<and> isDatePattern (the dateSent)
             \<and> date_less (the dateSent) (the dateReceived)
          then [''Date sent cannot be earlier than date received''] else []))"

text \<open>
  The answer of \<open>PUT /records/:id\<close> is \<open>res.status(code).json({ error })\<close> or
  \<open>res.json({ ...updated, remarksText })\<close>.
  \<^verbatim>\<open>
  app.put('/records/:id', authMiddleware, async (req, res) => {
    const record = await db.getRecord(req.params.id);
    if (!record) return res.status(404).json({ error: 'Not found' });
    if (req.user.role === 'SECTION' && record.section !== req.user.section) {
      return res.status(403).json({ error: 'Forbidden' });
    }
    const payload = sanitizeInput(req.body);
    const dateErrors = validateDates(payload);
    if (dateErrors.length > 0) {
      return res.status(400).json({ error: dateErrors.join('. ') });
    }
    const remarksText = normalizeRemarks(payload);
    const updated = await db.updateRecord(req.params.id, { ...payload, remarks: remarksText });
    res.json({ ...updated, remarksText });
  });
  \<close>
\<close>

datatype put_response = PutError nat string | PutJson "record_row option" string

definition putRecordHandler :: "user \<Rightarrow> string \<Rightarrow> nat \<Rightarrow> payload \<Rightarrow> db \<Rightarrow> put_response \<times> db" where
  "putRecordHandler usr now rid payload st =
     (case getRecord st rid of
        None \<Rightarrow> (PutError 404 ''Not found'', st)
      | Some record \<Rightarrow>
          if u_role usr = ''SECTION'' \<and> r_section record \<noteq> u_section usr
          then (PutError 403 ''Forbidden'', st)
          else
            (let dateErrors = validateDates payload
             in if length dateErrors > 0
                then (PutError 400 (join ''. '' dateErrors), st)
                else
                  (let remarksText = normalizeRemarks payload;
                       result = updateRecord st now rid (payload\<lparr>p_remarks := Some remarksText\<rparr>)
                   in (PutJson (fst result) remarksText, snd result))))"

section \<open>Notions of the specification and example stores\<close>

text \<open>
  The sequence numbers embedded in a list of control numbers, read with the extractor
  \<open>ex\<close> (a control number that is absent or empty carries none), and the highest of
  them, \<open>0\<close> when there is none.
\<close>

definition embedded_seqs :: "(string \<Rightarrow> nat option) \<Rightarrow> string option list \<Rightarrow> nat list" where
  "embedded_seqs ex cns = List.map_filter (\<lambda>cn. if truthy cn then ex (the cn) else None) cns"

definition highest_embedded :: "(string \<Rightarrow> nat option) \<Rightarrow> string option list \<Rightarrow> nat" where
  "highest_embedded ex cns = Max (set (0 # embedded_seqs ex cns))"

text \<open>The control number of a row that belongs to a scope, as \<open>getNextCounter\<close> picks it.\<close>

definition ctrlNoOf :: "string \<Rightarrow> record_row \<Rightarrow> string option" where
  "ctrlNoOf scope record = (if scope = ''MC'' then r_mcCtrlNo record else r_sectionCtrlNo record)"

text \<open>A row with the given id, control numbers, section and date, and nothing else.\<close>

definition example_row :: "nat \<Rightarrow> string \<Rightarrow> string \<Rightarrow> string \<Rightarrow> string \<Rightarrow> record_row" where
  "example_row i mc sc section dateReceived =
     \<lparr>r_id = i, r_mcCtrlNo = Some mc, r_sectionCtrlNo = Some sc, r_section = Some section,
      r_dateReceived = Some dateReceived, r_subjectText = None, r_subjectFileUrl = None,
      r_fromValue = None, r_fromType = None, r_targetDate = None, r_targetDateMode = None,
      r_receivedBy = None, r_actionTaken = None, r_remarks = None, r_concernedUnits = None,
      r_dateSent = None, r_createdBy = None, r_updatedBy = None, r_createdAt = None,
      r_updatedAt = None\<rparr>"

text \<open>Three records of INVES for 2026-02-18 with sequence numbers 1 to 3, and counters
  left at 5: the state after records 4 and 5 were deleted behind the Resetter's back.\<close>

definition stale_counter :: counter_row where
  "stale_counter = \<lparr>c_id = 2, c_scope = ''SECTION'', c_section = Some ''INVES'',
                     currentNumber = 5, lastDateUsed = Some ''2026-02-18''\<rparr>"

definition stale_db :: db where
  "stale_db =
     \<lparr>records =
        [example_row 1 ''RFU4A-MC-260218-01'' ''RFU4A-INVES-260218-01'' ''INVES'' ''2026-02-18'',
         example_row 2 ''RFU4A-MC-260218-02'' ''RFU4A-INVES-260218-02'' ''INVES'' ''2026-02-18'',
         example_row 3 ''RFU4A-MC-260218-03'' ''RFU4A-INVES-260218-03'' ''INVES'' ''2026-02-18''],
      counters =
        [\<lparr>c_id = 1, c_scope = ''MC'', c_section = None, currentNumber = 5,
          lastDateUsed = Some ''2026-02-18''\<rparr>,
         stale_counter],
      nextRecordId = 6, nextCounterId = 3\<rparr>"

text \<open>A request body that names a section and a date and leaves everything else out.\<close>

definition example_payload :: "string \<Rightarrow> string \<Rightarrow> payload" where
  "example_payload section dateReceived =
     \<lparr>p_mcCtrlNo = None, p_sectionCtrlNo = None, p_section = Some section,
      p_dateReceived = Some dateReceived, p_subjectText = None, p_subjectFileUrl = None,
      p_fromValue = None, p_fromType = None, p_targetDate = None, p_targetDateMode = None,
      p_receivedBy = None, p_actionTaken = None, p_remarks = None, p_concernedUnits = None,
      p_dateSent = None, p_createdBy = None, p_updatedBy = None, p_username = None,
      p_remarksEmail = False, p_remarksViber = False, p_remarksHardCopy = False\<rparr>"

text \<open>Two records of INVES for 2026-02-18 that share one section control number.\<close>

definition duplicate_db :: db where
  "duplicate_db =
     \<lparr>records =
        [example_row 1 ''RFU4A-MC-260218-01'' ''RFU4A-INVES-260218-02'' ''INVES'' ''2026-02-18'',
         example_row 2 ''RFU4A-MC-260218-02'' ''RFU4A-INVES-260218-02'' ''INVES'' ''2026-02-18''],
      counters = [], nextRecordId = 3, nextCounterId = 1\<rparr>"

text \<open>Four records of INVES for 2026-02-18 with section sequence numbers 1, 2, 4, 5 and
  office-wide sequence numbers 1 to 4.\<close>

definition gap_db :: db where
  "gap_db =
     \<lparr>records =
        [example_row 1 ''RFU4A-MC-260218-01'' ''RFU4A-INVES-260218-01'' ''INVES'' ''2026-02-18'',
         example_row 2 ''RFU4A-MC-260218-02'' ''RFU4A-INVES-260218-02'' ''INVES'' ''2026-02-18'',
         example_row 3 ''RFU4A-MC-260218-03'' ''RFU4A-INVES-260218-04'' ''INVES'' ''2026-02-18'',
         example_row 4 ''RFU4A-MC-260218-04'' ''RFU4A-INVES-260218-05'' ''INVES'' ''2026-02-18''],
      counters = [], nextRecordId = 5, nextCounterId = 1\<rparr>"

text \<open>
  The invariant of a counter as the specification words it: \<open>currentNumber\<close> is the
  highest sequence number embedded in a control number stored for the counter's scope
  and its \<open>lastDateUsed\<close>; for the office-wide scope over the records of all sections
  with that date, for the section scope over the records of the counter's section.
\<close>

definition spec_highest :: "db \<Rightarrow> counter_row \<Rightarrow> nat" where
  "spec_highest st c =
     (if c_scope c = ''MC''
      then highest_embedded extractSeq
             (map r_mcCtrlNo (filter (\<lambda>r. sql_eq (r_dateReceived r) (lastDateUsed c)) (records st)))
      else highest_embedded extractSeq
             (map r_sectionCtrlNo (selectRecords st (c_section c) (lastDateUsed c))))"

definition spec_counter_invariant :: "db \<Rightarrow> bool" where
  "spec_counter_invariant st = list_all (\<lambda>c. currentNumber c = spec_highest st c) (counters st)"

text \<open>No storage call rejects, and a user of role MC.\<close>

definition no_faults :: faults where
  "no_faults = \<lparr>f_getRecord = False, f_deleteRecord = False, f_reset = ResetNoFault,
                f_validate = False\<rparr>"

definition mc_user :: user where
  "mc_user = \<lparr>u_role = ''MC'', u_section = None\<rparr>"

text \<open>One record created for INVES and one for INTEL on the same day through
  \<open>POST /records\<close>, then the INVES record deleted through \<open>DELETE /records/1\<close>.\<close>

definition two_sections_db :: db where
  "two_sections_db =
     snd (postRecords (snd (postRecords initial_db ''t1'' (example_payload ''INVES'' ''2026-02-18'')))
            ''t2'' (example_payload ''INTEL'' ''2026-02-18''))"

definition after_delete_db :: db where
  "after_delete_db = snd (deleteRecordHandler no_faults mc_user 1 two_sections_db)"

text \<open>
  One record created for INVES on 2026-02-18 and three on 2026-02-19, all through
  \<open>POST /records\<close>; then the record of 2026-02-18 deleted through
  \<open>DELETE /records/1\<close>.
\<close>

definition two_dates_db :: db where
  "two_dates_db =
     snd (postRecords
       (snd (postRecords
         (snd (postRecords
           (snd (postRecords initial_db ''t1'' (example_payload ''INVES'' ''2026-02-18'')))
           ''t2'' (example_payload ''INVES'' ''2026-02-19'')))
         ''t3'' (example_payload ''INVES'' ''2026-02-19'')))
       ''t4'' (example_payload ''INVES'' ''2026-02-19''))"

definition after_delete_two_dates_db :: db where
  "after_delete_two_dates_db = snd (deleteRecordHandler no_faults mc_user 1 two_dates_db)"

text \<open>A request body that carries nothing but two control numbers.\<close>

definition control_numbers_payload :: "string \<Rightarrow> string \<Rightarrow> payload" where
  "control_numbers_payload mc sc =
     \<lparr>p_mcCtrlNo = Some mc, p_sectionCtrlNo = Some sc, p_section = None,
      p_dateReceived = None, p_subjectText = None, p_subjectFileUrl = None,
      p_fromValue = None, p_fromType = None, p_targetDate = None, p_targetDateMode = None,
      p_receivedBy = None, p_actionTaken = None, p_remarks = None, p_concernedUnits = None,
      p_dateSent = None, p_createdBy = None, p_updatedBy = None, p_username = None,
      p_remarksEmail = False, p_remarksViber = False, p_remarksHardCopy = False\<rparr>"

text \<open>\<open>n\<close> calls of \<open>getNextCounter\<close> with the same arguments, one after the other and
  with nothing in between: the numbers returned and the store at the end.\<close>

fun allocateMany :: "db \<Rightarrow> string \<Rightarrow> string option \<Rightarrow> string option \<Rightarrow> nat \<Rightarrow> nat list \<times> db" where
  "allocateMany st scope section dateReceived 0 = ([], st)"
| "allocateMany st scope section dateReceived (Suc n) =
     (let first = getNextCounter st scope section dateReceived;
          later = allocateMany (snd first) scope section dateReceived n
      in (fst first # fst later, snd later))"

text \<open>\<open>POST /records\<close> for each payload of a list in turn: the records created and the
  store at the end.\<close>

fun postMany :: "db \<Rightarrow> string \<Rightarrow> payload list \<Rightarrow> record_row list \<times> db" where
  "postMany st now [] = ([], st)"
| "postMany st now (p # ps) =
     (let created = postRecords st now p;
          later = postMany (snd created) now ps
      in (fst created # fst later, snd later))"

text \<open>The \<open>id\<close> column of \<open>counters\<close> is \<open>INTEGER PRIMARY KEY AUTOINCREMENT\<close>: the
  ids of the rows are distinct, and each is below the next id to be issued.\<close>

definition counter_ids_issued :: "db \<Rightarrow> bool" where
  "counter_ids_issued st =
     (distinct (map c_id (counters st))
      \<and> list_all (\<lambda>c. c_id c < nextCounterId st) (counters st))"

text \<open>
  The counter of a section agrees with the records stored for the section and a date:
  \<open>k\<close> is the highest section sequence number stored for them, and the first counter
  row of the section, if there is one, holds \<open>k\<close> for that date (with no row,
  \<open>k = 0\<close>).
\<close>

definition section_allocated_upto :: "db \<Rightarrow> string \<Rightarrow> string \<Rightarrow> nat \<Rightarrow> bool" where
  "section_allocated_upto st s d k =
     (counter_ids_issued st
      \<and> highestActual ''SECTION'' (selectRecords st (Some s) (Some d)) = k
      \<and> (case findCounter st ''SECTION'' (Some s) of
            None \<Rightarrow> k = 0
          | Some e \<Rightarrow> currentNumber e = k \<and> lastDateUsed e = Some d))"

section \<open>Numbers, digits and matches\<close>

text \<open>\<open>2 ^ 1024\<close> written out, so that a comparison with \<open>Infinity\<close> is evaluated
  without computing the power.\<close>

lemma Infinity_code [code]:
  "Infinity = 179769313486231590772930519078902473361797697894230657273430081157732675805500963132708477322407536021120113879871393357658789768814416622492847430639474124377767893424865485276302219601246094119453082952085005768838150682342462881473913110540827237163350510684586298239947245938479716304835356329624224137216"
  by (simp add: Infinity_def)

lemma toNumber_small: "n < 9007199254740992 \<Longrightarrow> toNumber n = n"
  by (simp add: toNumber_def)

lemma toNumber_2_53: "toNumber 9007199254740992 = 9007199254740992"
  by (simp add: toNumber_def bitLength.simps Let_def Infinity_def)

lemma toNumber_le: "n \<le> 9007199254740992 \<Longrightarrow> toNumber n = n"
  using toNumber_small [of n] toNumber_2_53 by (cases "n = 9007199254740992") simp_all

lemma toNumber_10_21: "toNumber 1000000000000000000000 = 1000000000000000000000"
  by (simp add: toNumber_def bitLength.simps Let_def Infinity_def)

lemma js_plus_1:
  "k < 9007199254740992 \<Longrightarrow> js_plus k 1 = k + 1"
  "k < 9007199254740992 \<Longrightarrow> js_plus k (Suc 0) = Suc k"
  by (simp_all add: js_plus_def toNumber_le)

text \<open>Beyond \<open>2 ^ 53\<close> a sum is rounded, and \<open>parseInt\<close> rounds as well.\<close>

lemma js_plus_2_53:
  "js_plus 9007199254740992 1 = 9007199254740992"
  "js_plus 9007199254740992 (Suc 0) = 9007199254740992"
  by (simp_all add: js_plus_def toNumber_def bitLength.simps Let_def Infinity_def)

lemma parseInt10_rounds: "parseInt10 ''9007199254740993'' = 9007199254740992"
  by (simp add: parseInt10_def digitsValue_def digitVal_def toNumber_def bitLength.simps Let_def
      Infinity_def)

lemma digitChar_simps:
  "digitChar 0 = CHR ''0''" "digitChar 1 = CHR ''1''" "digitChar 2 = CHR ''2''"
  "digitChar 3 = CHR ''3''" "digitChar 4 = CHR ''4''" "digitChar 5 = CHR ''5''"
  "digitChar 6 = CHR ''6''" "digitChar 7 = CHR ''7''" "digitChar 8 = CHR ''8''"
  "digitChar 9 = CHR ''9''" "digitChar (Suc 0) = CHR ''1''"
  by code_simp+

lemma shortestFrom_numeral:
  "shortestFrom v (numeral k) =
     (let p = 10 ^ numeral k;
          lo = (v div p) * p;
          hi = lo + p;
          okLo = (toNumber lo = v);
          okHi = (toNumber hi = v)
      in if okLo \<and> okHi
         then (if v - lo < hi - v \<or> (v - lo = hi - v \<and> even (v div p)) then lo else hi)
         else if okLo then lo
         else if okHi then hi
         else shortestFrom v (pred_numeral k))"
  using shortestFrom.simps(2) [of v "pred_numeral k"] by (simp only: numeral_eq_Suc [symmetric])

lemma digitVal_digitChar: "d < 10 \<Longrightarrow> digitVal (digitChar d) = d"
  by (simp add: digitVal_def digitChar_def)

lemma isDigit_digitChar: "d < 10 \<Longrightarrow> isDigit (digitChar d)"
  by (simp add: isDigit_def digitChar_def)

lemma isDigit_zero: "isDigit (CHR ''0'')"
  by (simp add: isDigit_def)

lemma not_isDigit_dash: "\<not> isDigit (CHR ''-'')"
  by (simp add: isDigit_def)

lemma decimal_digits: "list_all isDigit (decimal n)"
proof (induction n rule: decimal.induct)
  case (1 n)
  show ?case
  proof (cases "n < 10")
    case True
    then show ?thesis by (simp add: decimal.simps [of n] isDigit_digitChar)
  next
    case False
    with 1 show ?thesis by (simp add: decimal.simps [of n] isDigit_digitChar)
  qed
qed

lemma decimal_nonempty: "decimal n \<noteq> []"
  by (simp add: decimal.simps [of n])

lemma length_decimal: "n < 10 ^ Suc k \<Longrightarrow> length (decimal n) \<le> Suc k"
proof (induction k arbitrary: n)
  case 0
  then show ?case by (simp add: decimal.simps [of n])
next
  case (Suc k)
  show ?case
  proof (cases "n < 10")
    case True
    then show ?thesis by (simp add: decimal.simps [of n])
  next
    case False
    from Suc.prems have "n div 10 < 10 ^ Suc k"
      by (simp add: less_mult_imp_div_less mult.commute)
    then have "length (decimal (n div 10)) \<le> Suc k"
      by (rule Suc.IH)
    with False show ?thesis by (simp add: decimal.simps [of n])
  qed
qed

lemma digitsValue_snoc: "digitsValue (s @ [c]) = 10 * digitsValue s + digitVal c"
  by (simp add: digitsValue_def)

lemma digitsValue_decimal: "digitsValue (decimal n) = n"
proof (induction n rule: decimal.induct)
  case (1 n)
  show ?case
  proof (cases "n < 10")
    case True
    then show ?thesis
      by (simp add: decimal.simps [of n] digitsValue_def digitVal_digitChar)
  next
    case False
    with 1 have "digitsValue (decimal (n div 10)) = n div 10" by simp
    with False show ?thesis
      by (simp add: decimal.simps [of n] digitsValue_snoc digitVal_digitChar)
  qed
qed

lemma digitsValue_zeros: "digitsValue (replicate k (CHR ''0'') @ s) = digitsValue s"
proof -
  have "foldl (\<lambda>acc c. 10 * acc + digitVal c) 0 (replicate k (CHR ''0'')) = 0"
    by (induction k) (simp_all add: digitVal_def)
  then show ?thesis by (simp add: digitsValue_def)
qed

text \<open>The integer that \<open>String\<close> prints for a Number value has that Number value, and
  for a Number value below \<open>10 ^ 21\<close> it is below \<open>10 ^ 21\<close> too.\<close>

lemma shortestFrom_round: "toNumber v = v \<Longrightarrow> toNumber (shortestFrom v e) = v"
  by (induction e) (auto simp add: Let_def simp del: power_Suc)

lemma shortestFrom_below:
  assumes "v < 1000000000000000000000" and "toNumber v = v" and "e \<le> 20"
  shows "shortestFrom v e < 1000000000000000000000"
  using assms(3)
proof (induction e)
  case 0
  with assms(1) show ?case by simp
next
  case (Suc e)
  let ?p = "10 ^ Suc e :: nat"
  let ?lo = "(v div ?p) * ?p"
  let ?hi = "?lo + ?p"
  have lo: "?lo < 1000000000000000000000"
    using assms(1) by (meson div_times_less_eq_dividend le_less_trans)
  have hi: "?hi < 1000000000000000000000" if ok: "toNumber ?hi = v"
  proof -
    have split: "(1000000000000000000000::nat) = 10 ^ (20 - e) * ?p"
      using Suc.prems by (simp add: power_add [symmetric])
    have "v div ?p < 10 ^ (20 - e)"
      using assms(1) unfolding split by (simp add: less_mult_imp_div_less)
    then have "v div ?p + 1 \<le> 10 ^ (20 - e)" by simp
    then have "(v div ?p + 1) * ?p \<le> 10 ^ (20 - e) * ?p"
      by (rule mult_le_mono1)
    then have le: "?hi \<le> 1000000000000000000000"
      unfolding split [symmetric] by (simp add: algebra_simps)
    show ?thesis
    proof (rule ccontr)
      assume "\<not> ?thesis"
      with le have "?hi = 1000000000000000000000" by simp
      with ok toNumber_10_21 assms(1) show False by simp
    qed
  qed
  from Suc have IH: "shortestFrom v e < 1000000000000000000000" by simp
  show ?case
    using lo hi IH by (auto simp add: Let_def simp del: power_Suc)
qed

lemma String_num_plain:
  assumes "toNumber v = v" and "v < 1000000000000000000000"
  shows "\<exists>m. String_num v = decimal m \<and> toNumber m = v"
proof -
  let ?m = "shortestFrom v (length (decimal v) - 1)"
  have "v < 10 ^ Suc 20" using assms(2) by simp
  then have "length (decimal v) \<le> Suc 20" by (rule length_decimal)
  then have "length (decimal v) - 1 \<le> 20" by simp
  with assms have "?m < 1000000000000000000000" by (intro shortestFrom_below)
  moreover have "v \<noteq> Infinity" using assms(2) by (simp add: Infinity_def)
  ultimately have "String_num v = decimal ?m"
    by (simp add: String_num_def Let_def)
  moreover have "toNumber ?m = v" using assms(1) by (rule shortestFrom_round)
  ultimately show ?thesis by blast
qed

lemma padded_String_num:
  assumes "toNumber v = v" and "v < 1000000000000000000000"
  shows "parseInt10 (padStart n (CHR ''0'') (String_num v)) = v"
    and "list_all isDigit (padStart n (CHR ''0'') (String_num v))"
    and "padStart n (CHR ''0'') (String_num v) \<noteq> []"
proof -
  from String_num_plain [OF assms] obtain m where m: "String_num v = decimal m" "toNumber m = v"
    by blast
  show "parseInt10 (padStart n (CHR ''0'') (String_num v)) = v"
    by (simp add: m parseInt10_def padStart_def digitsValue_zeros digitsValue_decimal)
  show "list_all isDigit (padStart n (CHR ''0'') (String_num v))"
    using decimal_digits [of m] by (auto simp add: m(1) padStart_def list_all_iff isDigit_zero)
  show "padStart n (CHR ''0'') (String_num v) \<noteq> []"
    by (simp add: m(1) padStart_def decimal_nonempty)
qed

lemma trailingDigits_dash:
  "list_all isDigit ds \<Longrightarrow> trailingDigits (pre @ CHR ''-'' # ds) = ds"
  by (simp add: trailingDigits_def list_all_iff not_isDigit_dash takeWhile_append)

lemma beforeTrailingDigits_dash:
  "list_all isDigit ds \<Longrightarrow> beforeTrailingDigits (pre @ CHR ''-'' # ds) = pre @ ''-''"
  by (simp add: beforeTrailingDigits_def list_all_iff not_isDigit_dash dropWhile_append)

lemma match_seq_dash:
  "list_all isDigit ds \<Longrightarrow> ds \<noteq> [] \<Longrightarrow> match_seq (pre @ CHR ''-'' # ds) = Some ds"
  by (simp add: match_seq_def trailingDigits_dash beforeTrailingDigits_dash)

lemma formatCtrlNo_shape:
  "formatCtrlNo prefix section dateStr n =
     (prefix @ (if truthy section then ''-'' @ the section else ''-MC'') @ ''-'' @
        drop 2 (filter (\<lambda>c. c \<noteq> CHR ''-'') dateStr)) @
     CHR ''-'' # padStart 2 (CHR ''0'') (String_num n)"
  by (simp add: formatCtrlNo_def)

lemma match_seq_formatCtrlNo:
  assumes "toNumber n = n" and "n < 1000000000000000000000"
  shows "match_seq (formatCtrlNo prefix section dateStr n) =
           Some (padStart 2 (CHR ''0'') (String_num n))"
  unfolding formatCtrlNo_shape
  using padded_String_num(2) [OF assms] padded_String_num(3) [OF assms] by (rule match_seq_dash)

lemma extractSeq_formatCtrlNo:
  assumes "toNumber n = n" and "n < 1000000000000000000000"
  shows "extractSeq (formatCtrlNo prefix section dateStr n) = Some n"
  by (simp add: extractSeq_def match_seq_formatCtrlNo [OF assms] padded_String_num(1) [OF assms])

lemma extractSeq_formatCtrlNo_le:
  "n \<le> 9007199254740992 \<Longrightarrow> extractSeq (formatCtrlNo prefix section dateStr n) = Some n"
  by (rule extractSeq_formatCtrlNo) (simp_all add: toNumber_le)

section \<open>Format and parse\<close>

text \<open>
  Claim C10, as amended. For every sequence number \<open>n\<close> that is a Number value below
  \<open>10 ^ 21\<close> (every integer up to \<open>2 ^ 53\<close> is one), every section (or none) and
  every date string, \<open>/-(\d+)$/\<close> matches the control number that \<open>formatCtrlNo\<close>
  builds, its group is what \<open>String\<close> prints for \<open>n\<close>, padded to two places, and
  \<open>parseInt\<close> of the group is \<open>n\<close> again: padding adds zeros in front only, and a
  number of three or more digits is kept whole.
\<close>

theorem formatCtrlNo_roundtrip:
  assumes "toNumber n = n" and "n < 10 ^ 21"
  shows "match_seq (formatCtrlNo prefix section dateStr n) =
           Some (padStart 2 (CHR ''0'') (String_num n))
       \<and> parseInt10 (padStart 2 (CHR ''0'') (String_num n)) = n
       \<and> extractSeq (formatCtrlNo prefix section dateStr n) = Some n"
proof -
  from assms(2) have b: "n < 1000000000000000000000" by simp
  show ?thesis
    using match_seq_formatCtrlNo [OF assms(1) b] padded_String_num(1) [OF assms(1) b]
      extractSeq_formatCtrlNo [OF assms(1) b]
    by simp
qed

theorem formatCtrlNo_roundtrip_witness:
  "toNumber 7 = 7 \<and> (7::nat) < 10 ^ 21
   \<and> formatCtrlNo ''RFU4A'' None ''2026-02-18'' 7 = ''RFU4A-MC-260218-07''
   \<and> extractSeq (formatCtrlNo ''RFU4A'' None ''2026-02-18'' 7) = Some 7
   \<and> match_seq (formatCtrlNo ''RFU4A'' (Some ''INVES'') ''2026-02-18'' 123) = Some ''123''
   \<and> toNumber 18446744073709551616 = 18446744073709551616
   \<and> (18446744073709551616::nat) < 10 ^ 21
   \<and> extractSeq (formatCtrlNo ''RFU4A'' None ''2026-02-18'' 18446744073709551616)
       = Some 18446744073709551616"
proof -
  have n1: "toNumber 7 = 7" and n2: "toNumber 123 = 123"
    by (simp_all add: toNumber_small)
  have n3: "toNumber 18446744073709551616 = 18446744073709551616"
    by (simp add: toNumber_def bitLength.simps Let_def Infinity_def)
  have p: "padStart 2 (CHR ''0'') (String_num 123) = ''123''"
    by code_simp
  have f: "formatCtrlNo ''RFU4A'' None ''2026-02-18'' 7 = ''RFU4A-MC-260218-07''"
    by code_simp
  show ?thesis
    using formatCtrlNo_roundtrip [OF n1, of "''RFU4A''" None "''2026-02-18''"]
      formatCtrlNo_roundtrip [OF n2, of "''RFU4A''" "Some ''INVES''" "''2026-02-18''"]
      formatCtrlNo_roundtrip [OF n3, of "''RFU4A''" None "''2026-02-18''"]
      n1 n3 p f
    by simp
qed

text \<open>
  Claim C10 as stated fails from \<open>10 ^ 21\<close> on: \<open>String\<close> prints the Number value
  \<open>10 ^ 21\<close> as \<open>1e+21\<close>, and \<open>/-(\d+)$/\<close> does not match the control number
  built from it.
\<close>

theorem formatCtrlNo_exponent_notation:
  "toNumber (10 ^ 21) = 10 ^ 21
   \<and> formatCtrlNo ''RFU4A'' (Some ''INVES'') ''2026-02-18'' (10 ^ 21) = ''RFU4A-INVES-260218-1e+21''
   \<and> extractSeq (formatCtrlNo ''RFU4A'' (Some ''INVES'') ''2026-02-18'' (10 ^ 21)) = None"
proof -
  have s: "String_num 1000000000000000000000 = ''1e+21''"
    by (simp add: String_num_def shortestFrom_numeral decimal.simps toNumber_def bitLength.simps
        Let_def Infinity_def digitChar_simps)
  have f: "formatCtrlNo ''RFU4A'' (Some ''INVES'') ''2026-02-18'' 1000000000000000000000 =
      ''RFU4A-INVES-260218-1e+21''"
    unfolding formatCtrlNo_def s by code_simp
  have "extractSeq ''RFU4A-INVES-260218-1e+21'' = None"
    by code_simp
  with f toNumber_10_21 show ?thesis by simp
qed

section \<open>Allocator: reconciliation against the stored records\<close>

lemma highestActual_step_eq:
  "highestActual_step scope a r =
     (case (if truthy (ctrlNoOf scope r) then extractSeq (the (ctrlNoOf scope r)) else None) of
        None \<Rightarrow> a | Some q \<Rightarrow> max a q)"
  by (auto simp add: highestActual_step_def ctrlNoOf_def extractSeq_def Let_def max_def
      split: option.splits)

lemma Max_insert_max:
  "finite S \<Longrightarrow> Max (insert (max a q) S) = max (a::nat) (Max (insert q S))"
  by (cases "S = {}") (simp_all add: max.assoc)

lemma foldl_highestActual:
  "foldl (highestActual_step scope) a rows =
     Max (set (a # embedded_seqs extractSeq (map (ctrlNoOf scope) rows)))"
proof (induction rows arbitrary: a)
  case Nil
  show ?case by (simp add: embedded_seqs_def)
next
  case (Cons r rows)
  let ?q = "if truthy (ctrlNoOf scope r) then extractSeq (the (ctrlNoOf scope r)) else None"
  have step: "foldl (highestActual_step scope) a (r # rows) =
      Max (set (highestActual_step scope a r # embedded_seqs extractSeq (map (ctrlNoOf scope) rows)))"
    unfolding foldl_Cons by (rule Cons.IH)
  show ?case
  proof (cases ?q)
    case None
    then have "highestActual_step scope a r = a"
      by (simp add: highestActual_step_eq)
    moreover from None have "embedded_seqs extractSeq (map (ctrlNoOf scope) (r # rows)) =
        embedded_seqs extractSeq (map (ctrlNoOf scope) rows)"
      by (simp add: embedded_seqs_def)
    ultimately show ?thesis using step by simp
  next
    case (Some q)
    then have "highestActual_step scope a r = max a q"
      by (simp add: highestActual_step_eq)
    moreover from Some have "embedded_seqs extractSeq (map (ctrlNoOf scope) (r # rows)) =
        q # embedded_seqs extractSeq (map (ctrlNoOf scope) rows)"
      by (simp add: embedded_seqs_def)
    ultimately show ?thesis using step
      by (simp add: Max_insert_max)
  qed
qed

lemma highestActual_embedded:
  "highestActual scope rows = highest_embedded extractSeq (map (ctrlNoOf scope) rows)"
  by (simp add: highestActual_def highest_embedded_def foldl_highestActual)

lemma getNextCounter_self_heal:
  assumes "findCounter st scope section = Some e"
    and "lastDateUsed e = dateReceived"
    and "truthy section" and "truthy dateReceived"
    and "highestActual scope (selectRecords st section dateReceived) < currentNumber e"
  shows "getNextCounter st scope section dateReceived =
           (js_plus (highestActual scope (selectRecords st section dateReceived)) 1,
            updateCounterById (c_id e)
              (\<lambda>c. c\<lparr>currentNumber := highestActual scope (selectRecords st section dateReceived)\<rparr>) st)"
  using assms by (simp add: getNextCounter_def Let_def)

text \<open>
  Claim C4. The counter row of \<open>(SECTION, s)\<close> holds 5 for the date \<open>d\<close>, and the
  highest sequence number embedded in the section control numbers of the records
  stored for \<open>(s, d)\<close> is 3: the next \<open>getNextCounter\<close> for \<open>(SECTION, s, d)\<close>
  returns 4 (the actual maximum, below the stored counter, is the base), not 6.
  A section and a date are non-empty strings.
\<close>

theorem self_healing_stale_counter:
  assumes "findCounter st ''SECTION'' (Some s) = Some e"
    and "currentNumber e = 5"
    and "lastDateUsed e = Some d"
    and "s \<noteq> []" and "d \<noteq> []"
    and "highest_embedded extractSeq (map r_sectionCtrlNo (selectRecords st (Some s) (Some d))) = 3"
  shows "fst (getNextCounter st ''SECTION'' (Some s) (Some d)) = 4"
proof -
  have "ctrlNoOf ''SECTION'' = r_sectionCtrlNo"
    by (rule ext) (simp add: ctrlNoOf_def)
  with assms(6) have "highestActual ''SECTION'' (selectRecords st (Some s) (Some d)) = 3"
    by (simp add: highestActual_embedded)
  with assms show ?thesis
    by (simp add: getNextCounter_self_heal [where e = e] truthy_def js_plus_def toNumber_small)
qed

theorem self_healing_stale_counter_witness:
  "findCounter stale_db ''SECTION'' (Some ''INVES'') = Some stale_counter
   \<and> currentNumber stale_counter = 5
   \<and> lastDateUsed stale_counter = Some ''2026-02-18''
   \<and> highest_embedded extractSeq
         (map r_sectionCtrlNo (selectRecords stale_db (Some ''INVES'') (Some ''2026-02-18''))) = 3
   \<and> fst (getNextCounter stale_db ''SECTION'' (Some ''INVES'') (Some ''2026-02-18'')) = 4"
proof -
  have f: "findCounter stale_db ''SECTION'' (Some ''INVES'') = Some stale_counter"
    by code_simp
  have c: "currentNumber stale_counter = 5" by (simp add: stale_counter_def)
  have l: "lastDateUsed stale_counter = Some ''2026-02-18''" by (simp add: stale_counter_def)
  have m: "highest_embedded extractSeq
         (map r_sectionCtrlNo (selectRecords stale_db (Some ''INVES'') (Some ''2026-02-18''))) = 3"
    by code_simp
  from self_healing_stale_counter [OF f c l _ _ m] f c l m show ?thesis by simp
qed

section \<open>What the code does where it departs from the specification\<close>

text \<open>
  Claim C2 (the code departs from it). In the reconciliation branch the SQLite path of
  \<open>getNextCounter\<close> writes the actual maximum to the counter row and returns one more:
  on \<open>stale_db\<close> it returns 4 and leaves \<open>currentNumber = 3\<close>. Once the record
  numbered 04 is stored the counter is no longer above the maximum, so the next
  allocation starts from 3 again: two consecutive \<open>POST /records\<close> get the same
  section control number.
\<close>

theorem self_heal_persists_base:
  "fst (getNextCounter stale_db ''SECTION'' (Some ''INVES'') (Some ''2026-02-18'')) = 4
   \<and> map_option currentNumber
         (findCounter (snd (getNextCounter stale_db ''SECTION'' (Some ''INVES'') (Some ''2026-02-18'')))
            ''SECTION'' (Some ''INVES'')) = Some 3
   \<and> r_sectionCtrlNo (fst (postRecords stale_db ''t1'' (example_payload ''INVES'' ''2026-02-18'')))
       = Some ''RFU4A-INVES-260218-04''
   \<and> r_sectionCtrlNo (fst (postRecords
          (snd (postRecords stale_db ''t1'' (example_payload ''INVES'' ''2026-02-18'')))
          ''t2'' (example_payload ''INVES'' ''2026-02-18'')))
       = Some ''RFU4A-INVES-260218-04''"
  by code_simp

text \<open>
  Claim C5 (the code departs from it). \<open>peekNextCounter\<close> has no reconciliation: on
  \<open>stale_db\<close> the preview of the section sequence number is 6 and the commit from
  the same state returns 4, so \<open>/control-numbers/preview\<close> shows a section control
  number that \<open>/control-numbers/next\<close> does not assign.
\<close>

theorem preview_differs_from_commit:
  "fst (getNextCounterPreview stale_db ''SECTION'' (Some ''INVES'') (Some ''2026-02-18'')) = 6
   \<and> snd (getNextCounterPreview stale_db ''SECTION'' (Some ''INVES'') (Some ''2026-02-18'')) = stale_db
   \<and> fst (getNextCounter stale_db ''SECTION'' (Some ''INVES'') (Some ''2026-02-18'')) = 4
   \<and> fst (getNextControlNumbers stale_db ''INVES'' ''2026-02-18'' True)
       = (''RFU4A-MC-260218-06'', ''RFU4A-INVES-260218-06'')
   \<and> fst (getNextControlNumbers stale_db ''INVES'' ''2026-02-18'' False)
       = (''RFU4A-MC-260218-06'', ''RFU4A-INVES-260218-04'')"
  by code_simp

text \<open>
  Claim C6 (the code departs from it). For two records that share a section control
  number \<open>validateControlNumbers\<close> reports one entry of type SECTION, and the entry
  carries \<open>recordId\<close>, the id of the second record alone; there is no list of the ids
  of both.
\<close>

theorem duplicate_entry_has_one_id:
  "v_duplicates (validateControlNumbers duplicate_db (Some ''INVES'') (Some ''2026-02-18'')) =
     [\<lparr>d_type = ''SECTION'', d_controlNumber = ''RFU4A-INVES-260218-02'', d_recordId = 2\<rparr>]"
  by code_simp

text \<open>
  Claim C7 (the code departs from it). For section sequence numbers 1, 2, 4, 5
  \<open>validateControlNumbers\<close> reports one issue of type SECTION and \<open>hasProblems\<close>; the
  issue's message names the bare number 3, not the control number
  \<open>RFU4A-INVES-260218-03\<close> that \<open>formatCtrlNo\<close> gives for it.
\<close>

theorem gap_issue_names_bare_number:
  "validateControlNumbers gap_db (Some ''INVES'') (Some ''2026-02-18'') =
     \<lparr>v_duplicates = [],
      v_issues = [\<lparr>i_type = ''SECTION'', i_message = ''Missing control number sequence: 3''\<rparr>],
      v_hasProblems = True\<rparr>
   \<and> formatCtrlNo ''RFU4A'' (Some ''INVES'') ''2026-02-18'' 3 = ''RFU4A-INVES-260218-03''"
  by code_simp

section \<open>Updating a record\<close>

lemma find_map_same:
  "(\<And>x. P (g x) = P x) \<Longrightarrow> find P (map g xs) = map_option g (find P xs)"
  by (induction xs) simp_all

lemma find_Some_holds: "find P xs = Some x \<Longrightarrow> P x"
  by (induction xs) (auto split: if_splits)

text \<open>
  What \<open>updateRecord\<close> does with the two control numbers of an existing record: the
  record it returns is the record as stored after the update, and each control number
  is the stored one where the payload does not carry the field and the payload's where
  it does.
\<close>

lemma updateRecord_control_numbers:
  assumes "getRecord st rid = Some current"
  shows "\<exists>updated.
           fst (updateRecord st now rid payload) = Some updated
         \<and> getRecord (snd (updateRecord st now rid payload)) rid = Some updated
         \<and> r_mcCtrlNo updated =
             (case p_mcCtrlNo payload of None \<Rightarrow> r_mcCtrlNo current | Some v \<Rightarrow> Some v)
         \<and> r_sectionCtrlNo updated =
             (case p_sectionCtrlNo payload of None \<Rightarrow> r_sectionCtrlNo current | Some v \<Rightarrow> Some v)"
proof -
  from assms have idc: "r_id current = rid"
    unfolding getRecord_def by (rule find_Some_holds)
  have "find (\<lambda>r. r_id r = rid) (map (\<lambda>row. if r_id row = rid then g row else row) (records st))
        = map_option (\<lambda>row. if r_id row = rid then g row else row) (find (\<lambda>r. r_id r = rid) (records st))"
    if "\<And>row. r_id (g row) = r_id row" for g
    by (rule find_map_same) (simp add: that)
  note fm = this
  show ?thesis
    using assms idc
    by (simp add: updateRecord_def Let_def getRecord_def fm nullish_def split: option.splits)
qed

text \<open>
  Claim C8 (the code departs from it). \<open>PUT /records/:id\<close> hands the request body to
  \<open>updateRecord\<close> with the two control numbers it carries, and \<open>updateRecord\<close> writes
  them: a request that carries \<open>mcCtrlNo\<close> and \<open>sectionCtrlNo\<close> replaces the control
  numbers of record 2 of \<open>stale_db\<close>, in the answer and in the store.
  \<open>POST /records\<close>, given the same two properties, overrides them with the allocated
  numbers.
\<close>

theorem put_overwrites_control_numbers:
  "map_option (\<lambda>r. (r_mcCtrlNo r, r_sectionCtrlNo r)) (getRecord stale_db 2)
     = Some (Some ''RFU4A-MC-260218-02'', Some ''RFU4A-INVES-260218-02'')
   \<and> (case fst (putRecordHandler mc_user ''t'' 2
                  (control_numbers_payload ''RFU4A-MC-260218-99'' ''RFU4A-INVES-260218-99'') stale_db) of
         PutError code message \<Rightarrow> None
       | PutJson updated remarksText \<Rightarrow> map_option (\<lambda>r. (r_mcCtrlNo r, r_sectionCtrlNo r)) updated)
     = Some (Some ''RFU4A-MC-260218-99'', Some ''RFU4A-INVES-260218-99'')
   \<and> map_option (\<lambda>r. (r_mcCtrlNo r, r_sectionCtrlNo r))
        (getRecord (snd (putRecordHandler mc_user ''t'' 2
                          (control_numbers_payload ''RFU4A-MC-260218-99'' ''RFU4A-INVES-260218-99'')
                          stale_db)) 2)
     = Some (Some ''RFU4A-MC-260218-99'', Some ''RFU4A-INVES-260218-99'')
   \<and> (\<lambda>r. (r_mcCtrlNo r, r_sectionCtrlNo r))
        (fst (postRecords stale_db ''t''
               ((example_payload ''INVES'' ''2026-02-18'')
                  \<lparr>p_mcCtrlNo := Some ''RFU4A-MC-260218-99'',
                   p_sectionCtrlNo := Some ''RFU4A-INVES-260218-99''\<rparr>)))
     = (Some ''RFU4A-MC-260218-06'', Some ''RFU4A-INVES-260218-04'')"
  by code_simp

section \<open>Deletion and repair failures\<close>






lemma getRecord_deleteRecord: "getRecord (deleteRecord st rid) rid = None"
  by (simp add: getRecord_def deleteRecord_def find_None_iff)



section \<open>Counter Resetter and the counter invariant\<close>

text \<open>
  Claim C1 (the code departs from it). \<open>resetCountersForSection(section, dateReceived)\<close>
  writes the maxima of the records of that one section and date to the office-wide
  counter and to the section's counter, whatever date the counters stand at and
  whatever other sections have stored.

  In \<open>two_dates_db\<close>, reached through \<open>POST /records\<close> alone, every counter holds the
  highest sequence number stored for its scope and its \<open>lastDateUsed\<close>. Deleting the
  record of the day before through \<open>DELETE /records/1\<close> sets both counters, which
  stand at 2026-02-19 with three records stored, to 0, and the next \<open>POST /records\<close>
  for 2026-02-19 is given two control numbers that record 2 already has.

  In \<open>two_sections_db\<close> the invariant holds as well. Deleting the INVES record sets
  the office-wide counter to 0 while \<open>RFU4A-MC-260218-02\<close> is stored for INTEL, and
  the second \<open>POST /records\<close> that follows is given that office-wide number again.
\<close>

theorem reset_breaks_counter_invariant:
  "spec_counter_invariant two_dates_db
   \<and> map (\<lambda>c. (c_scope c, c_section c, currentNumber c, lastDateUsed c)) (counters two_dates_db)
       = [(''MC'', None, 3, Some ''2026-02-19''),
          (''SECTION'', Some ''INVES'', 3, Some ''2026-02-19'')]
   \<and> \<not> spec_counter_invariant after_delete_two_dates_db
   \<and> map (\<lambda>c. (c_scope c, c_section c, currentNumber c, lastDateUsed c))
         (counters after_delete_two_dates_db)
       = [(''MC'', None, 0, Some ''2026-02-19''),
          (''SECTION'', Some ''INVES'', 0, Some ''2026-02-19'')]
   \<and> map (\<lambda>r. (r_id r, r_mcCtrlNo r, r_sectionCtrlNo r)) (records after_delete_two_dates_db)
       = [(2, Some ''RFU4A-MC-260219-01'', Some ''RFU4A-INVES-260219-01''),
          (3, Some ''RFU4A-MC-260219-02'', Some ''RFU4A-INVES-260219-02''),
          (4, Some ''RFU4A-MC-260219-03'', Some ''RFU4A-INVES-260219-03'')]
   \<and> (\<lambda>r. (r_id r, r_mcCtrlNo r, r_sectionCtrlNo r))
        (fst (postRecords after_delete_two_dates_db ''t5'' (example_payload ''INVES'' ''2026-02-19'')))
       = (5, Some ''RFU4A-MC-260219-01'', Some ''RFU4A-INVES-260219-01'')
   \<and> spec_counter_invariant two_sections_db
   \<and> \<not> spec_counter_invariant after_delete_db
   \<and> map (\<lambda>c. (c_scope c, c_section c, currentNumber c, lastDateUsed c)) (counters after_delete_db)
       = [(''MC'', None, 0, Some ''2026-02-18''),
          (''SECTION'', Some ''INVES'', 0, Some ''2026-02-18''),
          (''SECTION'', Some ''INTEL'', 1, Some ''2026-02-18'')]
   \<and> map (\<lambda>r. (r_id r, r_mcCtrlNo r)) (records after_delete_db)
       = [(2, Some ''RFU4A-MC-260218-02'')]
   \<and> (\<lambda>r. (r_id r, r_mcCtrlNo r))
        (fst (postRecords
               (snd (postRecords after_delete_db ''t3'' (example_payload ''INTEL'' ''2026-02-18'')))
               ''t4'' (example_payload ''INTEL'' ''2026-02-18'')))
       = (4, Some ''RFU4A-MC-260218-02'')"
  by code_simp

section \<open>Sequential allocation\<close>

lemma findCounter_updateCounterById:
  assumes "\<And>c. c_scope (f c) = c_scope c" and "\<And>c. c_section (f c) = c_section c"
  shows "findCounter (updateCounterById cid f st) scope section =
           map_option (\<lambda>c. if c_id c = cid then f c else c) (findCounter st scope section)"
  unfolding findCounter_def updateCounterById_def
  by (simp add: find_map_same assms)

lemma find_snoc:
  "find P (xs @ [x]) = (case find P xs of None \<Rightarrow> (if P x then Some x else None) | Some y \<Rightarrow> Some y)"
  by (induction xs) simp_all

lemma findCounter_insertCounter:
  "findCounter (insertCounter scope section n l st) scope' section' =
     (case findCounter st scope' section' of
        None \<Rightarrow> (if scope = scope' \<and> section = section'
                 then Some \<lparr>c_id = nextCounterId st, c_scope = scope, c_section = section,
                            currentNumber = n, lastDateUsed = l\<rparr>
                 else None)
      | Some y \<Rightarrow> Some y)"
  by (auto simp add: findCounter_def insertCounter_def find_snoc sql_is_def split: option.splits)

lemma selectRecords_updateCounterById [simp]:
  "selectRecords (updateCounterById cid f st) section dateReceived = selectRecords st section dateReceived"
  by (simp add: selectRecords_def updateCounterById_def)

lemma selectRecords_insertCounter [simp]:
  "selectRecords (insertCounter scope section' n l st) section dateReceived = selectRecords st section dateReceived"
  by (simp add: selectRecords_def insertCounter_def)

lemma nextCounterId_insertCounter [simp]:
  "nextCounterId (insertCounter scope section n l st) = nextCounterId st + 1"
  by (simp add: insertCounter_def)

lemma getNextCounter_fresh:
  assumes "findCounter st scope section = None"
  shows "getNextCounter st scope section dr = (1, insertCounter scope section 1 (js_or dr None) st)"
  using assms by (simp add: getNextCounter_def Let_def)

text \<open>A call that finds the counter at the date asked for, and does not reconcile it
  (no section or no date is given, or the counter is not above the stored maximum).\<close>

lemma getNextCounter_next:
  assumes "findCounter st scope section = Some e"
    and "truthy dr \<Longrightarrow> lastDateUsed e = dr"
    and "\<not> (truthy section \<and> truthy dr)
         \<or> currentNumber e \<le> highestActual scope (selectRecords st section dr)"
  shows "getNextCounter st scope section dr =
           (js_plus (currentNumber e) 1,
            updateCounterById (c_id e)
              (\<lambda>c. c\<lparr>currentNumber := js_plus (currentNumber e) 1,
                     lastDateUsed := js_or dr (lastDateUsed e)\<rparr>) st)"
  using assms by (auto simp add: getNextCounter_def Let_def)

lemma getNextCounter_advance:
  assumes "findCounter st scope section = Some e"
    and "lastDateUsed e = Some d" and "d \<noteq> []"
    and "\<not> truthy section \<or> currentNumber e \<le> highestActual scope (selectRecords st section (Some d))"
    and "currentNumber e < 9007199254740992"
  shows "getNextCounter st scope section (Some d) =
           (currentNumber e + 1,
            updateCounterById (c_id e)
              (\<lambda>c. c\<lparr>currentNumber := currentNumber e + 1, lastDateUsed := Some d\<rparr>) st)"
proof -
  have "getNextCounter st scope section (Some d) =
           (js_plus (currentNumber e) 1,
            updateCounterById (c_id e)
              (\<lambda>c. c\<lparr>currentNumber := js_plus (currentNumber e) 1,
                     lastDateUsed := js_or (Some d) (lastDateUsed e)\<rparr>) st)"
    using assms(1,2,4) by (intro getNextCounter_next) auto
  with assms(3,5) show ?thesis
    by (simp add: js_plus_1 js_or_def truthy_def)
qed

subsection \<open>Calls with nothing in between\<close>

lemma bare_step:
  assumes f: "findCounter st scope section = Some e"
    and l: "truthy dr \<Longrightarrow> lastDateUsed e = dr"
    and n: "\<not> (truthy section \<and> truthy dr)"
  shows "fst (getNextCounter st scope section dr) = js_plus (currentNumber e) 1"
    and "\<exists>e'. findCounter (snd (getNextCounter st scope section dr)) scope section = Some e'
              \<and> currentNumber e' = js_plus (currentNumber e) 1
              \<and> (if truthy dr then lastDateUsed e' = dr else True)"
proof -
  let ?u = "\<lambda>c. c\<lparr>currentNumber := js_plus (currentNumber e) 1,
                    lastDateUsed := js_or dr (lastDateUsed e)\<rparr>"
  have g: "getNextCounter st scope section dr =
      (js_plus (currentNumber e) 1, updateCounterById (c_id e) ?u st)"
    using f l n by (intro getNextCounter_next) auto
  show "fst (getNextCounter st scope section dr) = js_plus (currentNumber e) 1"
    by (simp add: g)
  have "findCounter (updateCounterById (c_id e) ?u st) scope section =
      map_option (\<lambda>c. if c_id c = c_id e then ?u c else c) (findCounter st scope section)"
    by (rule findCounter_updateCounterById) simp_all
  then have "findCounter (snd (getNextCounter st scope section dr)) scope section = Some (?u e)"
    by (simp add: g f)
  then show "\<exists>e'. findCounter (snd (getNextCounter st scope section dr)) scope section = Some e'
              \<and> currentNumber e' = js_plus (currentNumber e) 1
              \<and> (if truthy dr then lastDateUsed e' = dr else True)"
    by (simp add: js_or_def)
qed

lemma bare_many:
  assumes "findCounter st scope section = Some e" and "currentNumber e = k"
    and "truthy dr \<Longrightarrow> lastDateUsed e = dr"
    and "\<not> (truthy section \<and> truthy dr)"
    and "k + n \<le> 9007199254740992"
  shows "fst (allocateMany st scope section dr n) = [k + 1 ..< k + 1 + n]
       \<and> (\<exists>e'. findCounter (snd (allocateMany st scope section dr n)) scope section = Some e'
              \<and> currentNumber e' = k + n
              \<and> (if truthy dr then lastDateUsed e' = dr else True))"
  using assms
proof (induction n arbitrary: st e k)
  case 0
  then show ?case by simp
next
  case (Suc n)
  let ?st1 = "snd (getNextCounter st scope section dr)"
  from Suc.prems(2,5) have k: "k < 9007199254740992" by simp
  have r: "fst (getNextCounter st scope section dr) = Suc k"
    using bare_step(1) [OF Suc.prems(1) Suc.prems(3) Suc.prems(4)] Suc.prems(2) k
    by (simp add: js_plus_1)
  from bare_step(2) [OF Suc.prems(1) Suc.prems(3) Suc.prems(4)] Suc.prems(2) k
  obtain e1 where e1: "findCounter ?st1 scope section = Some e1" "currentNumber e1 = Suc k"
      "if truthy dr then lastDateUsed e1 = dr else True"
    by (auto simp add: js_plus_1)
  from e1(3) have l1: "truthy dr \<Longrightarrow> lastDateUsed e1 = dr" by simp
  from Suc.prems(5) have b1: "Suc k + n \<le> 9007199254740992" by simp
  note IH = Suc.IH [OF e1(1) e1(2) l1 Suc.prems(4) b1]
  have up: "[k + 1 ..< k + 1 + Suc n] = Suc k # [Suc k + 1 ..< Suc k + 1 + n]"
    by (simp add: upt_rec)
  show ?case
    unfolding up using r IH by (simp add: Let_def)
qed

lemma bare_from_fresh:
  assumes "findCounter st scope section = None"
    and "\<not> (truthy section \<and> truthy dr)"
    and "Suc n \<le> 9007199254740992"
  shows "fst (allocateMany st scope section dr (Suc n)) = [1 ..< Suc n + 1]
       \<and> (\<exists>e'. findCounter (snd (allocateMany st scope section dr (Suc n))) scope section = Some e'
              \<and> currentNumber e' = Suc n
              \<and> (if truthy dr then lastDateUsed e' = dr else True))"
proof -
  let ?st1 = "insertCounter scope section 1 (js_or dr None) st"
  let ?e1 = "\<lparr>c_id = nextCounterId st, c_scope = scope, c_section = section,
              currentNumber = 1, lastDateUsed = js_or dr None\<rparr>"
  have g: "getNextCounter st scope section dr = (1, ?st1)"
    using assms(1) by (rule getNextCounter_fresh)
  have f1: "findCounter ?st1 scope section = Some ?e1"
    using assms(1) by (simp add: findCounter_insertCounter)
  have c1: "currentNumber ?e1 = 1" by simp
  have l1: "truthy dr \<Longrightarrow> lastDateUsed ?e1 = dr" by (simp add: js_or_def)
  have b1: "1 + n \<le> 9007199254740992"
    using assms(3) by simp
  note many = bare_many [OF f1 c1 l1 assms(2) b1]
  have up: "[1 ..< Suc n + 1] = 1 # [1 + 1 ..< 1 + 1 + n]"
    by (simp add: upt_rec)
  show ?thesis
    unfolding up using many by (simp add: g Let_def)
qed

lemma allocateMany_snoc:
  "allocateMany st scope section dr (Suc n) =
     (fst (allocateMany st scope section dr n) @
        [fst (getNextCounter (snd (allocateMany st scope section dr n)) scope section dr)],
      snd (getNextCounter (snd (allocateMany st scope section dr n)) scope section dr))"
  by (induction n arbitrary: st) (simp_all add: Let_def)

text \<open>From a counter at \<open>2 ^ 53\<close> the next number is \<open>2 ^ 53\<close> again.\<close>

lemma allocation_repeats_2_53:
  assumes "findCounter st scope section = None" and "\<not> (truthy section \<and> truthy dr)"
  shows "last (fst (allocateMany st scope section dr (Suc 9007199254740992))) = 9007199254740992"
proof -
  let ?st = "snd (allocateMany st scope section dr 9007199254740992)"
  have n: "(9007199254740992::nat) = Suc 9007199254740991" by simp
  have "\<exists>e'. findCounter ?st scope section = Some e'
              \<and> currentNumber e' = 9007199254740992
              \<and> (if truthy dr then lastDateUsed e' = dr else True)"
    using bare_from_fresh [OF assms, of 9007199254740991] unfolding n [symmetric] by simp
  then obtain e' where e': "findCounter ?st scope section = Some e'"
      "currentNumber e' = 9007199254740992" "truthy dr \<Longrightarrow> lastDateUsed e' = dr"
    by (auto split: if_splits)
  have "fst (getNextCounter ?st scope section dr) = js_plus (currentNumber e') 1"
    using e'(1) e'(3) assms(2) by (rule bare_step(1))
  then have "fst (getNextCounter ?st scope section dr) = 9007199254740992"
    by (simp add: e'(2) js_plus_2_53)
  then show ?thesis
    unfolding allocateMany_snoc by simp
qed

subsection \<open>Calls made by record creations\<close>

lemma highestActual_snoc:
  "highestActual scope (rows @ [r]) = highestActual_step scope (highestActual scope rows) r"
  by (simp add: highestActual_def)

lemma highestActual_step_formatted:
  "r_sectionCtrlNo r = Some (formatCtrlNo pfx sec dstr n) \<Longrightarrow> n \<le> 9007199254740992 \<Longrightarrow>
   highestActual_step ''SECTION'' a r = max a n"
  using extractSeq_formatCtrlNo_le [of n pfx sec dstr]
  by (simp add: highestActual_step_eq ctrlNoOf_def truthy_def formatCtrlNo_shape)

lemma postRecords_eq:
  "postRecords st now p =
     createRecord (snd (getNextControlNumbers st (the (p_section p)) (the (p_dateReceived p)) False)) now
       (p\<lparr>p_mcCtrlNo := Some (fst (fst (getNextControlNumbers st (the (p_section p)) (the (p_dateReceived p)) False))),
          p_sectionCtrlNo := Some (snd (fst (getNextControlNumbers st (the (p_section p)) (the (p_dateReceived p)) False))),
          p_remarks := Some (normalizeRemarks p)\<rparr>)"
  by (simp add: postRecords_def Let_def split_beta)

lemma findCounter_createRecord [simp]:
  "findCounter (snd (createRecord st now p)) scope section = findCounter st scope section"
  by (simp add: createRecord_def findCounter_def Let_def)

lemma selectRecords_createRecord:
  assumes "p_section p = Some s" and "p_dateReceived p = Some d"
  shows "selectRecords (snd (createRecord st now p)) (Some s) (Some d) =
           selectRecords st (Some s) (Some d) @ [fst (createRecord st now p)]"
  using assms by (simp add: createRecord_def selectRecords_def Let_def sql_eq_def)

lemma createRecord_ctrl [simp]:
  "r_mcCtrlNo (fst (createRecord st now p)) = p_mcCtrlNo p"
  "r_sectionCtrlNo (fst (createRecord st now p)) = p_sectionCtrlNo p"
  by (simp_all add: createRecord_def Let_def)

lemma getNextControlNumbers_eq:
  "getNextControlNumbers st s d False =
     ((formatCtrlNo ''RFU4A'' None d (fst (getNextCounter st ''MC'' None (Some d))),
       formatCtrlNo ''RFU4A'' (Some s) d
         (fst (getNextCounter (snd (getNextCounter st ''MC'' None (Some d)))
                 ''SECTION'' (Some s) (Some d)))),
      snd (getNextCounter (snd (getNextCounter st ''MC'' None (Some d)))
             ''SECTION'' (Some s) (Some d)))"
  by (simp add: getNextControlNumbers_def Let_def split_beta)

lemma find_Some_mem: "find P xs = Some x \<Longrightarrow> x \<in> set xs"
  by (induction xs) (auto split: if_splits)

lemma findCounter_props:
  assumes "findCounter st scope section = Some e"
  shows "e \<in> set (counters st)" and "c_scope e = scope" and "c_section e = section"
  using assms find_Some_mem [of _ "counters st" e] find_Some_holds [of _ "counters st" e]
  unfolding findCounter_def sql_is_def by blast+

lemma findCounter_ids_differ:
  assumes "counter_ids_issued st"
    and "findCounter st scope1 section1 = Some e1"
    and "findCounter st scope2 section2 = Some e2"
    and "scope1 \<noteq> scope2"
  shows "c_id e1 \<noteq> c_id e2"
proof
  assume eq: "c_id e1 = c_id e2"
  from assms(1) have "inj_on c_id (set (counters st))"
    by (simp add: counter_ids_issued_def distinct_map)
  moreover from assms(2,3) have "e1 \<in> set (counters st)" and "e2 \<in> set (counters st)"
    by (simp_all add: findCounter_props(1))
  ultimately have "e1 = e2"
    using eq by (simp add: inj_on_def)
  with assms(2,3,4) show False
    using findCounter_props(2) by blast
qed

lemma getNextCounter_cases:
  "(findCounter st scope section = None
      \<and> snd (getNextCounter st scope section dr) = insertCounter scope section 1 (js_or dr None) st)
   \<or> (\<exists>e f. findCounter st scope section = Some e
          \<and> snd (getNextCounter st scope section dr) = updateCounterById (c_id e) f st
          \<and> (\<forall>c. c_scope (f c) = c_scope c \<and> c_section (f c) = c_section c \<and> c_id (f c) = c_id c))"
proof (cases "findCounter st scope section")
  case None
  then show ?thesis by (simp add: getNextCounter_def Let_def)
next
  case (Some e)
  let ?h = "highestActual scope (selectRecords st section dr)"
  show ?thesis
  proof (cases "\<not> (truthy dr \<and> lastDateUsed e \<noteq> dr) \<and> truthy section \<and> truthy dr \<and> currentNumber e > ?h")
    case True
    with Some have "snd (getNextCounter st scope section dr) =
        updateCounterById (c_id e) (\<lambda>c. c\<lparr>currentNumber := ?h\<rparr>) st"
      by (simp add: getNextCounter_def Let_def)
    with Some show ?thesis by (intro disjI2 exI conjI) (assumption, assumption, simp)
  next
    case False
    let ?n = "js_plus (if truthy dr \<and> lastDateUsed e \<noteq> dr then 0 else currentNumber e) 1"
    from False Some have "snd (getNextCounter st scope section dr) =
        updateCounterById (c_id e)
          (\<lambda>c. c\<lparr>currentNumber := ?n, lastDateUsed := js_or dr (lastDateUsed e)\<rparr>) st"
      by (auto simp add: getNextCounter_def Let_def)
    with Some show ?thesis by (intro disjI2 exI conjI) (assumption, assumption, simp)
  qed
qed

lemma counter_ids_issued_insertCounter:
  "counter_ids_issued st \<Longrightarrow> counter_ids_issued (insertCounter scope section n l st)"
  by (auto simp add: counter_ids_issued_def insertCounter_def list_all_iff)

lemma counter_ids_issued_updateCounterById:
  assumes "counter_ids_issued st" and "\<And>c. c_id (f c) = c_id c"
  shows "counter_ids_issued (updateCounterById cid f st)"
proof -
  have "c_id \<circ> (\<lambda>c. if c_id c = cid then f c else c) = c_id"
    by (rule ext) (simp add: assms(2))
  with assms show ?thesis
    by (auto simp add: counter_ids_issued_def updateCounterById_def list_all_iff)
qed

lemma counter_ids_issued_getNextCounter:
  "counter_ids_issued st \<Longrightarrow> counter_ids_issued (snd (getNextCounter st scope section dr))"
  using getNextCounter_cases [of st scope "section" dr]
  by (auto simp add: counter_ids_issued_insertCounter counter_ids_issued_updateCounterById)

lemma selectRecords_getNextCounter:
  "selectRecords (snd (getNextCounter st scope section dr)) a b = selectRecords st a b"
  using getNextCounter_cases [of st scope "section" dr] by auto

lemma findCounter_getNextCounter_other_None:
  assumes "findCounter st scope' section' = None" and "scope \<noteq> scope'"
  shows "findCounter (snd (getNextCounter st scope section dr)) scope' section' = None"
  using getNextCounter_cases [of st scope "section" dr] assms
  by (auto simp add: findCounter_insertCounter findCounter_updateCounterById)

lemma findCounter_getNextCounter_other_Some:
  assumes "counter_ids_issued st" and "findCounter st scope' section' = Some e'"
    and "scope \<noteq> scope'"
  shows "findCounter (snd (getNextCounter st scope section dr)) scope' section' = Some e'"
proof -
  have "c_id e \<noteq> c_id e'" if "findCounter st scope section = Some e" for e
    using assms(1) that assms(2) assms(3) by (rule findCounter_ids_differ)
  then show ?thesis
    using getNextCounter_cases [of st scope "section" dr] assms(2)
    by (auto simp add: findCounter_insertCounter findCounter_updateCounterById)
qed

lemma section_step_numbers:
  assumes inv: "section_allocated_upto st s d k" and s: "s \<noteq> []" and d: "d \<noteq> []"
    and k: "k < 9007199254740992"
  shows "snd (fst (getNextControlNumbers st s d False)) = formatCtrlNo ''RFU4A'' (Some s) d (k + 1)
       \<and> selectRecords (snd (getNextControlNumbers st s d False)) (Some s) (Some d) =
           selectRecords st (Some s) (Some d)
       \<and> counter_ids_issued (snd (getNextControlNumbers st s d False))
       \<and> (\<exists>e. findCounter (snd (getNextControlNumbers st s d False)) ''SECTION'' (Some s) = Some e
              \<and> currentNumber e = k + 1 \<and> lastDateUsed e = Some d)"
proof -
  let ?st1 = "snd (getNextCounter st ''MC'' None (Some d))"
  from inv have issued: "counter_ids_issued st"
    and h: "highestActual ''SECTION'' (selectRecords st (Some s) (Some d)) = k"
    by (simp_all add: section_allocated_upto_def)
  have issued1: "counter_ids_issued ?st1"
    using issued by (rule counter_ids_issued_getNextCounter)
  have sel1: "selectRecords ?st1 (Some s) (Some d) = selectRecords st (Some s) (Some d)"
    by (rule selectRecords_getNextCounter)
  let ?u = "\<lambda>c. c\<lparr>currentNumber := k + 1, lastDateUsed := Some d\<rparr>"
  have "\<exists>st2 e. getNextCounter ?st1 ''SECTION'' (Some s) (Some d) = (k + 1, st2)
          \<and> selectRecords st2 (Some s) (Some d) = selectRecords st (Some s) (Some d)
          \<and> counter_ids_issued st2
          \<and> findCounter st2 ''SECTION'' (Some s) = Some e
          \<and> currentNumber e = k + 1 \<and> lastDateUsed e = Some d"
  proof (cases "findCounter st ''SECTION'' (Some s)")
    case None
    with inv have k0: "k = 0"
      by (simp add: section_allocated_upto_def)
    from None have f2: "findCounter ?st1 ''SECTION'' (Some s) = None"
      by (rule findCounter_getNextCounter_other_None) simp
    let ?st2 = "insertCounter ''SECTION'' (Some s) 1 (Some d) ?st1"
    have g2: "getNextCounter ?st1 ''SECTION'' (Some s) (Some d) = (1, ?st2)"
      using getNextCounter_fresh [OF f2, of "Some d"] d by (simp add: js_or_def truthy_def)
    have "findCounter ?st2 ''SECTION'' (Some s) =
        Some \<lparr>c_id = nextCounterId ?st1, c_scope = ''SECTION'', c_section = Some s,
              currentNumber = 1, lastDateUsed = Some d\<rparr>"
      using f2 by (simp add: findCounter_insertCounter)
    moreover have "counter_ids_issued ?st2"
      using issued1 by (rule counter_ids_issued_insertCounter)
    ultimately show ?thesis
      using k0 g2 sel1 by simp
  next
    case (Some e2)
    with inv have c2: "currentNumber e2 = k" and l2: "lastDateUsed e2 = Some d"
      by (simp_all add: section_allocated_upto_def)
    have f2': "findCounter ?st1 ''SECTION'' (Some s) = Some e2"
      using issued Some by (rule findCounter_getNextCounter_other_Some) simp
    let ?st2 = "updateCounterById (c_id e2) ?u ?st1"
    have g2: "getNextCounter ?st1 ''SECTION'' (Some s) (Some d) = (k + 1, ?st2)"
      using getNextCounter_advance [OF f2' l2 d] c2 h sel1 k by simp
    have S: "findCounter ?st2 ''SECTION'' (Some s) = Some (?u e2)"
    proof -
      have "findCounter ?st2 ''SECTION'' (Some s) =
          map_option (\<lambda>c. if c_id c = c_id e2 then ?u c else c) (findCounter ?st1 ''SECTION'' (Some s))"
        by (rule findCounter_updateCounterById) simp_all
      also have "\<dots> = Some (?u e2)"
        unfolding f2' by simp
      finally show ?thesis .
    qed
    have I: "counter_ids_issued ?st2"
      using issued1 by (rule counter_ids_issued_updateCounterById) simp
    show ?thesis
      by (rule exI [of _ ?st2], rule exI [of _ "?u e2"]) (use g2 sel1 S I in simp)
  qed
  then obtain st2 e where g2: "getNextCounter ?st1 ''SECTION'' (Some s) (Some d) = (k + 1, st2)"
    and r: "selectRecords st2 (Some s) (Some d) = selectRecords st (Some s) (Some d)"
      "counter_ids_issued st2"
      "findCounter st2 ''SECTION'' (Some s) = Some e"
      "currentNumber e = k + 1" "lastDateUsed e = Some d"
    by blast
  have G: "snd (fst (getNextControlNumbers st s d False)) = formatCtrlNo ''RFU4A'' (Some s) d (k + 1)"
    "snd (getNextControlNumbers st s d False) = st2"
    unfolding getNextControlNumbers_eq g2 by simp_all
  show ?thesis
    unfolding G using r by simp
qed

lemma counter_ids_issued_createRecord [simp]:
  "counter_ids_issued (snd (createRecord st now p)) = counter_ids_issued st"
  by (simp add: createRecord_def counter_ids_issued_def Let_def)

lemma section_step:
  assumes inv: "section_allocated_upto st s d k" and s: "s \<noteq> []" and d: "d \<noteq> []"
    and ps: "p_section p = Some s" and pd: "p_dateReceived p = Some d"
    and k: "k < 9007199254740992"
  shows "r_sectionCtrlNo (fst (postRecords st now p)) = Some (formatCtrlNo ''RFU4A'' (Some s) d (k + 1))
       \<and> section_allocated_upto (snd (postRecords st now p)) s d (k + 1)"
proof -
  let ?g = "getNextControlNumbers st s d False"
  let ?p = "p\<lparr>p_mcCtrlNo := Some (fst (fst ?g)), p_sectionCtrlNo := Some (snd (fst ?g)),
               p_remarks := Some (normalizeRemarks p)\<rparr>"
  note step = section_step_numbers [OF inv s d k]
  have eq: "postRecords st now p = createRecord (snd ?g) now ?p"
    using ps pd by (simp add: postRecords_eq)
  have sel: "selectRecords (snd (createRecord (snd ?g) now ?p)) (Some s) (Some d) =
      selectRecords st (Some s) (Some d) @ [fst (createRecord (snd ?g) now ?p)]"
    using step ps pd by (simp add: selectRecords_createRecord)
  from inv have h: "highestActual ''SECTION'' (selectRecords st (Some s) (Some d)) = k"
    by (simp add: section_allocated_upto_def)
  have sc: "r_sectionCtrlNo (fst (createRecord (snd ?g) now ?p)) =
      Some (formatCtrlNo ''RFU4A'' (Some s) d (k + 1))"
    using step by simp
  from k have k1: "k + 1 \<le> 9007199254740992" by simp
  have h': "highestActual ''SECTION''
      (selectRecords (snd (createRecord (snd ?g) now ?p)) (Some s) (Some d)) = k + 1"
    unfolding sel highestActual_snoc h
    using highestActual_step_formatted [OF sc k1, of k] by simp
  from step obtain e where "findCounter (snd ?g) ''SECTION'' (Some s) = Some e"
    and "currentNumber e = k + 1" and "lastDateUsed e = Some d"
    by blast
  then show ?thesis
    unfolding eq using step h' sc by (simp add: section_allocated_upto_def)
qed

lemma postMany_section:
  assumes "section_allocated_upto st s d k" and "s \<noteq> []" and "d \<noteq> []"
    and "list_all (\<lambda>p. p_section p = Some s \<and> p_dateReceived p = Some d) ps"
    and "k + length ps \<le> 9007199254740992"
  shows "map r_sectionCtrlNo (fst (postMany st now ps)) =
           map (\<lambda>n. Some (formatCtrlNo ''RFU4A'' (Some s) d n)) [k + 1 ..< k + 1 + length ps]"
  using assms
proof (induction ps arbitrary: st k)
  case Nil
  show ?case by simp
next
  case (Cons p ps)
  from Cons.prems have ps: "p_section p = Some s" and pd: "p_dateReceived p = Some d"
    and rest: "list_all (\<lambda>p. p_section p = Some s \<and> p_dateReceived p = Some d) ps"
    and k: "k < 9007199254740992" and k1: "(k + 1) + length ps \<le> 9007199254740992"
    by simp_all
  note step = section_step [OF Cons.prems(1) Cons.prems(2) Cons.prems(3) ps pd k, of now]
  from step have inv': "section_allocated_upto (snd (postRecords st now p)) s d (k + 1)" by simp
  note IH = Cons.IH [OF inv' Cons.prems(2) Cons.prems(3) rest k1]
  have up: "[k + 1 ..< k + 1 + length (p # ps)] = (k + 1) # [k + 1 + 1 ..< k + 1 + 1 + length ps]"
    by (simp add: upt_rec)
  show ?case
    unfolding up using step IH by (simp add: Let_def)
qed

text \<open>
  Claim C3, as amended. From a store with no counter row for \<open>(scope, section)\<close>,
  \<open>N\<close> sequential \<open>getNextCounter\<close> calls return \<open>1, 2, ..., N\<close>, for \<open>N\<close> up to
  \<open>2 ^ 53\<close>:

  \<^item> with nothing in between, when the calls give no section or no date, as the calls
    for the office-wide scope do (their section is \<open>null\<close>);

  \<^item> for the scope of a section \<open>s\<close> and a date \<open>d\<close>, from a store with no record
    for \<open>(s, d)\<close> either, when the calls are made by \<open>N\<close> sequential
    \<open>POST /records\<close> for \<open>s\<close> and \<open>d\<close>, each of which stores the record that carries
    the formatted number before the next call is made: the section control numbers of
    the records created are those of \<open>1, 2, ..., N\<close>, and the numbers read back from
    them are \<open>1, 2, ..., N\<close>.
\<close>

theorem sequential_allocation:
  assumes "N \<le> 2 ^ 53"
  shows "(findCounter st scope section = None \<and> \<not> (truthy section \<and> truthy dateReceived) \<longrightarrow>
            fst (allocateMany st scope section dateReceived N) = [1 ..< N + 1])
       \<and> (counter_ids_issued st \<and> s \<noteq> [] \<and> d \<noteq> [] \<and> length ps = N
          \<and> list_all (\<lambda>p. p_section p = Some s \<and> p_dateReceived p = Some d) ps
          \<and> findCounter st ''SECTION'' (Some s) = None
          \<and> selectRecords st (Some s) (Some d) = [] \<longrightarrow>
            map r_sectionCtrlNo (fst (postMany st now ps)) =
              map (\<lambda>n. Some (formatCtrlNo ''RFU4A'' (Some s) d n)) [1 ..< N + 1]
          \<and> map (\<lambda>r. extractSeq (the (r_sectionCtrlNo r))) (fst (postMany st now ps)) =
              map Some [1 ..< N + 1])"
proof (intro conjI impI)
  assume fresh: "findCounter st scope section = None \<and> \<not> (truthy section \<and> truthy dateReceived)"
  show "fst (allocateMany st scope section dateReceived N) = [1 ..< N + 1]"
  proof (cases N)
    case 0
    then show ?thesis by simp
  next
    case (Suc n)
    with assms have "Suc n \<le> 9007199254740992" by simp
    with fresh show ?thesis
      unfolding Suc using bare_from_fresh [of st scope "section" dateReceived n] by simp
  qed
next
  assume h: "counter_ids_issued st \<and> s \<noteq> [] \<and> d \<noteq> [] \<and> length ps = N
          \<and> list_all (\<lambda>p. p_section p = Some s \<and> p_dateReceived p = Some d) ps
          \<and> findCounter st ''SECTION'' (Some s) = None
          \<and> selectRecords st (Some s) (Some d) = []"
  then have inv: "section_allocated_upto st s d 0"
    by (simp add: section_allocated_upto_def highestActual_def)
  from h have s: "s \<noteq> []" and d: "d \<noteq> []"
    and ps: "list_all (\<lambda>p. p_section p = Some s \<and> p_dateReceived p = Some d) ps"
    and len: "length ps = N"
    by simp_all
  from assms len have b: "0 + length ps \<le> 9007199254740992" by simp
  from postMany_section [OF inv s d ps b, of now] len
  show c: "map r_sectionCtrlNo (fst (postMany st now ps)) =
           map (\<lambda>n. Some (formatCtrlNo ''RFU4A'' (Some s) d n)) [1 ..< N + 1]"
    by (simp add: add.commute)
  have "map (\<lambda>r. extractSeq (the (r_sectionCtrlNo r))) (fst (postMany st now ps)) =
        map (\<lambda>c. extractSeq (the c)) (map r_sectionCtrlNo (fst (postMany st now ps)))"
    by (simp add: comp_def)
  also have "\<dots> = map (\<lambda>n. extractSeq (formatCtrlNo ''RFU4A'' (Some s) d n)) [1 ..< N + 1]"
    unfolding c by (simp add: comp_def)
  also have "\<dots> = map Some [1 ..< N + 1]"
    using assms by (intro map_cong refl extractSeq_formatCtrlNo_le) auto
  finally show "map (\<lambda>r. extractSeq (the (r_sectionCtrlNo r))) (fst (postMany st now ps)) =
        map Some [1 ..< N + 1]" .
qed

theorem sequential_allocation_witness:
  "(3::nat) \<le> 2 ^ 53
   \<and> findCounter initial_db ''MC'' None = None
   \<and> \<not> (truthy None \<and> truthy (Some ''2026-02-18''))
   \<and> fst (allocateMany initial_db ''MC'' None (Some ''2026-02-18'') 3) = [1, 2, 3]
   \<and> counter_ids_issued initial_db
   \<and> findCounter initial_db ''SECTION'' (Some ''INVES'') = None
   \<and> selectRecords initial_db (Some ''INVES'') (Some ''2026-02-18'') = []
   \<and> map r_sectionCtrlNo
        (fst (postMany initial_db ''t'' (replicate 3 (example_payload ''INVES'' ''2026-02-18''))))
       = [Some ''RFU4A-INVES-260218-01'', Some ''RFU4A-INVES-260218-02'',
          Some ''RFU4A-INVES-260218-03'']
   \<and> map (\<lambda>r. extractSeq (the (r_sectionCtrlNo r)))
        (fst (postMany initial_db ''t'' (replicate 3 (example_payload ''INVES'' ''2026-02-18''))))
       = [Some 1, Some 2, Some 3]"
proof -
  let ?ps = "replicate 3 (example_payload ''INVES'' ''2026-02-18'')"
  have b: "(3::nat) \<le> 2 ^ 53" by simp
  have h0: "counter_ids_issued initial_db"
    by (simp add: counter_ids_issued_def initial_db_def)
  have h1: "findCounter initial_db ''MC'' None = None"
    by (simp add: findCounter_def initial_db_def)
  have h2: "findCounter initial_db ''SECTION'' (Some ''INVES'') = None"
    by (simp add: findCounter_def initial_db_def)
  have h3: "selectRecords initial_db (Some ''INVES'') (Some ''2026-02-18'') = []"
    by (simp add: selectRecords_def initial_db_def)
  have h4: "\<not> (truthy None \<and> truthy (Some ''2026-02-18''))"
    by (simp add: truthy_def)
  have h6: "list_all (\<lambda>p. p_section p = Some ''INVES'' \<and> p_dateReceived p = Some ''2026-02-18'') ?ps"
    by (simp add: list_all_iff example_payload_def)
  have u: "[1 ..< 3 + 1] = [1, 2, 3::nat]"
    by (simp add: upt_rec)
  have e2: "map (\<lambda>n. Some (formatCtrlNo ''RFU4A'' (Some ''INVES'') ''2026-02-18'' n)) [1, 2, 3]
      = [Some ''RFU4A-INVES-260218-01'', Some ''RFU4A-INVES-260218-02'',
         Some ''RFU4A-INVES-260218-03'']"
    by code_simp
  from sequential_allocation [OF b, of initial_db "''MC''" None "Some ''2026-02-18''"
      "''INVES''" "''2026-02-18''" ?ps "''t''"] h0 h1 h2 h3 h4 h6
  show ?thesis unfolding u e2 by simp
qed

text \<open>
  Claim C3 as stated fails for the scope of a section: with no record stored between
  the calls, the second \<open>getNextCounter\<close> finds the counter at 1 above the stored
  maximum 0, resets it and returns 1 again, and so does every later call. And in any
  scope the numbers stop at \<open>2 ^ 53\<close>: the call after the one that returned
  \<open>2 ^ 53\<close> returns \<open>2 ^ 53\<close> again.
\<close>

theorem bare_allocations_repeat:
  "selectRecords initial_db (Some ''INVES'') (Some ''2026-02-18'') = []
   \<and> findCounter initial_db ''SECTION'' (Some ''INVES'') = None
   \<and> fst (allocateMany initial_db ''SECTION'' (Some ''INVES'') (Some ''2026-02-18'') 3) = [1, 1, 1]
   \<and> findCounter initial_db ''MC'' None = None
   \<and> last (fst (allocateMany initial_db ''MC'' None (Some ''2026-02-18'') (2 ^ 53 + 1))) = 2 ^ 53"
proof -
  have a: "selectRecords initial_db (Some ''INVES'') (Some ''2026-02-18'') = []
      \<and> findCounter initial_db ''SECTION'' (Some ''INVES'') = None
      \<and> fst (allocateMany initial_db ''SECTION'' (Some ''INVES'') (Some ''2026-02-18'') 3) = [1, 1, 1]"
    by code_simp
  have m: "findCounter initial_db ''MC'' None = None"
    by (simp add: findCounter_def initial_db_def)
  have n: "(2::nat) ^ 53 + 1 = Suc 9007199254740992" by simp
  have "last (fst (allocateMany initial_db ''MC'' None (Some ''2026-02-18'') (Suc 9007199254740992)))
      = 9007199254740992"
    using m by (rule allocation_repeats_2_53) (simp add: truthy_def)
  with a m show ?thesis
    unfolding n by simp
qed

end
